theory Spec2Isabelle
  imports Complex_Main
begin

section \<open>JavaScript values, strings and numbers\<close>

text \<open>
  The dashboard's data processing works on rows delivered by the CSV reader: objects whose
  fields hold a string, a number, \<open>null\<close> (an empty cell) or nothing at all
  (\<open>undefined\<close>). Numbers are modelled as rationals, without the rounding of doubles.
  Where JavaScript would produce \<open>NaN\<close> the model uses \<open>None\<close>; the one division that
  the source guards against a divisor of 0, that of the weekly rows, has a result type
  with \<open>NaN\<close> and the infinities. Booleans and Date objects as field values are not
  modelled.
\<close>

datatype jsval = Undefined | Null | Str string | Num rat

text \<open>Truthiness, as tested by \<open>!x\<close>, \<open>x || y\<close> and \<open>if (x)\<close>.\<close>

fun truthy :: "jsval \<Rightarrow> bool" where
  "truthy Undefined = False"
| "truthy Null = False"
| "truthy (Str s) = (s \<noteq> [])"
| "truthy (Num x) = (x \<noteq> 0)"

text \<open>\<open>a || b\<close>.\<close>

definition orElse :: "jsval \<Rightarrow> jsval \<Rightarrow> jsval" where
  "orElse a b = (if truthy a then a else b)"

text \<open>A row: field names with their values, in column order. Reading a field that the
  row does not have gives \<open>undefined\<close>.\<close>

type_synonym rawRecord = "(string \<times> jsval) list"

definition field :: "rawRecord \<Rightarrow> string \<Rightarrow> jsval" where
  "field r k = (case map_of r k of None \<Rightarrow> Undefined | Some v \<Rightarrow> v)"

subsection \<open>Decimal digits\<close>

definition isDigit :: "char \<Rightarrow> bool" where
  "isDigit c = (c \<in> set ''0123456789'')"

definition digitVal :: "char \<Rightarrow> int" where
  \<comment> \<open>the place of a digit among the ten digits\<close>
  "digitVal c = int (length (takeWhile (\<lambda>d. d \<noteq> c) ''0123456789''))"

definition digitsVal :: "string \<Rightarrow> int" where
  "digitsVal s = foldl (\<lambda>n c. 10 * n + digitVal c) 0 s"

definition digitChar :: "nat \<Rightarrow> char" where
  "digitChar n = ''0123456789'' ! (n mod 10)"

fun showNat :: "nat \<Rightarrow> string" where
  "showNat n = (if n < 10 then [digitChar n] else showNat (n div 10) @ [digitChar n])"

declare showNat.simps [simp del]

text \<open>\<open>Number.prototype.toString\<close> on an integer (below \<open>10^21\<close> in magnitude, where
  JavaScript still prints plain decimal digits).\<close>

definition showInt :: "int \<Rightarrow> string" where
  "showInt i = (if i < 0 then CHR ''-'' # showNat (nat (- i)) else showNat (nat i))"

text \<open>\<open>String.prototype.padStart(n, c)\<close> with a one-character filler.\<close>

definition padStart :: "nat \<Rightarrow> char \<Rightarrow> string \<Rightarrow> string" where
  "padStart n c s = replicate (n - length s) c @ s"

text \<open>\<open>String.prototype.split\<close> with a character class such as \<open>/[-/]/\<close>: the pieces
  between the separator characters; a string without separator is one piece.\<close>

fun splitChars :: "(char \<Rightarrow> bool) \<Rightarrow> string \<Rightarrow> string list" where
  "splitChars p [] = [[]]"
| "splitChars p (c # cs) =
     (if p c then [] # splitChars p cs
      else (case splitChars p cs of
              [] \<Rightarrow> [[c]]
            | x # xs \<Rightarrow> (c # x) # xs))"

text \<open>\<open>ToNumber\<close> on a string, for the strings the date fallback meets: the empty string
  is 0 and a run of decimal digits is its value; anything else is \<open>NaN\<close>. (JavaScript
  also reads signs, fractions, exponents, radix prefixes and surrounding white space as
  numbers; those forms are outside the model.)\<close>

definition toNumberStr :: "string \<Rightarrow> int option" where
  "toNumberStr s = (if list_all isDigit s then Some (digitsVal s) else None)"

section \<open>Dates\<close>

text \<open>
  A JavaScript \<open>Date\<close> is modelled by the civil day it falls on in local time, counted in
  days since 1970-01-01; \<open>None\<close> is the Invalid Date. The time of day plays no part in
  the week key. The host's time zone is taken to be UTC.
\<close>

type_synonym date = "int option"

definition daysFromCivil :: "int \<Rightarrow> int \<Rightarrow> int \<Rightarrow> int" where
  \<comment> \<open>day number of year \<open>y\<close>, month \<open>m\<close> (1 to 12), day \<open>d\<close> of the proleptic Gregorian calendar\<close>
  "daysFromCivil y m d =
     (let y' = (if m \<le> 2 then y - 1 else y);
          era = y' div 400;
          yoe = y' - era * 400;
          doy = (153 * (if m > 2 then m - 3 else m + 9) + 2) div 5 + d - 1;
          doe = yoe * 365 + yoe div 4 - yoe div 100 + doy
      in era * 146097 + doe - 719468)"

definition civilFromDays :: "int \<Rightarrow> int \<times> int \<times> int" where
  \<comment> \<open>year, month (1 to 12) and day of month of a day number\<close>
  "civilFromDays z0 =
     (let z = z0 + 719468;
          era = z div 146097;
          doe = z - era * 146097;
          yoe = (doe - doe div 1460 + doe div 36524 - doe div 146096) div 365;
          doy = doe - (365 * yoe + yoe div 4 - yoe div 100);
          mp = (5 * doy + 2) div 153;
          d = doy - (153 * mp + 2) div 5 + 1;
          m = (if mp < 10 then mp + 3 else mp - 9)
      in (yoe + era * 400 + (if m \<le> 2 then 1 else 0), m, d))"

text \<open>ECMAScript's \<open>MakeDay(year, month, date)\<close> with a month counted from 0: months
  outside 0 to 11 carry into the year and days outside the month carry into the
  neighbouring months.\<close>

definition makeDay :: "int \<Rightarrow> int \<Rightarrow> int \<Rightarrow> int" where
  "makeDay year month dt = daysFromCivil (year + month div 12) (month mod 12 + 1) 1 + dt - 1"

text \<open>\<open>TimeClip\<close>: a time value beyond 8.64e15 milliseconds (100 million days) from the
  epoch is not a date.\<close>

definition timeClip :: "int \<Rightarrow> date" where
  "timeClip day = (if \<bar>day\<bar> \<le> 100000000 then Some day else None)"

text \<open>\<open>new Date(year, month, day)\<close>: any \<open>NaN\<close> argument gives the Invalid Date; years 0
  to 99 mean 1900 to 1999.\<close>

definition newDateYMD :: "int option \<Rightarrow> int option \<Rightarrow> int option \<Rightarrow> date" where
  "newDateYMD year month dt =
     (case (year, month, dt) of
        (Some y, Some m, Some d) \<Rightarrow>
          timeClip (makeDay (if 0 \<le> y \<and> y \<le> 99 then 1900 + y else y) m d)
      | _ \<Rightarrow> None)"

definition isLeapYearIndex :: "int \<Rightarrow> bool" where
  "isLeapYearIndex year = (year mod 400 = 0 \<or> (year mod 4 = 0 \<and> year mod 100 \<noteq> 0))"

definition daysInMonth :: "int \<Rightarrow> int \<Rightarrow> int" where
  \<comment> \<open>month counted from 0\<close>
  "daysInMonth year month =
     (if month = 1 then (if isLeapYearIndex year then 29 else 28)
      else if month \<in> {3, 5, 8, 10} then 30 else 31)"

definition validateDate :: "int \<Rightarrow> int \<Rightarrow> int \<Rightarrow> bool" where
  "validateDate year month dt =
     (0 \<le> month \<and> month \<le> 11 \<and> 1 \<le> dt \<and> dt \<le> daysInMonth year month)"

definition validateDayOfYearDate :: "int \<Rightarrow> int \<Rightarrow> bool" where
  "validateDayOfYearDate year dayOfYear =
     (1 \<le> dayOfYear \<and> dayOfYear \<le> (if isLeapYearIndex year then 366 else 365))"

text \<open>
  date-fns \<open>parseISO\<close>, for strings without a time or zone part and with a four-digit
  year or a two-digit century: \<open>YYYY\<close>, \<open>YYYY-MM\<close>, \<open>YYYY-MM-DD\<close>, \<open>YYYYMMDD\<close>, the
  ordinal date \<open>YYYY-DDD\<close>, and \<open>CC\<close>. The month and day are validated against the
  calendar. Every other string is the Invalid Date in the model; that is what date-fns
  answers unless the string is a week date, has a signed six-digit year or carries a
  time, which the model leaves out.
\<close>

definition parseDateUnit :: "string \<Rightarrow> int" where
  \<comment> \<open>a missing capture group counts as 1\<close>
  "parseDateUnit s = (if s = [] then 1 else digitsVal s)"

definition parseDate :: "string \<Rightarrow> int \<Rightarrow> date" where
  "parseDate dateString year =
     (let r = (case dateString of c # cs \<Rightarrow> (if c = CHR ''-'' then cs else dateString)
               | [] \<Rightarrow> []);
          plain = (list_all isDigit r \<and> length r \<in> {0, 2, 3, 4});
          dashed = (length r = 5 \<and> list_all isDigit (take 2 r) \<and> r ! 2 = CHR ''-''
                    \<and> list_all isDigit (drop 3 r))
      in if \<not> (plain \<or> dashed) then None
         else
           (let dayOfYear = parseDateUnit (if length r = 3 then r else []);
                month = parseDateUnit (if length r = 3 then [] else take 2 r) - 1;
                day = parseDateUnit (if length r = 4 then drop 2 r
                                     else if length r = 5 then drop 3 r else [])
            in if \<not> validateDate year month day \<or> \<not> validateDayOfYearDate year dayOfYear
               then None
               else Some (makeDay year month (max dayOfYear day))))"

definition parseISO :: "string \<Rightarrow> date" where
  "parseISO argument =
     (if length argument \<ge> 4 \<and> list_all isDigit (take 4 argument)
      then parseDate (drop 4 argument) (digitsVal (take 4 argument))
      else if length argument = 2 \<and> list_all isDigit argument
      then parseDate [] (digitsVal argument * 100)
      else None)"

text \<open>\<open>new Date(string)\<close>. ECMAScript fixes the result only for its own date-time
  format, where a date without a time is midnight UTC; for other strings every engine
  has its own fallback. The model reads \<open>YYYY-MM-DD\<close> and rejects the rest.\<close>

definition newDateStr :: "string \<Rightarrow> date" where
  "newDateStr s =
     (if length s = 10 \<and> list_all isDigit (take 4 s) \<and> s ! 4 = CHR ''-''
         \<and> list_all isDigit (take 2 (drop 5 s)) \<and> s ! 7 = CHR ''-''
         \<and> list_all isDigit (drop 8 s)
      then (let year = digitsVal (take 4 s);
                month = digitsVal (take 2 (drop 5 s)) - 1;
                day = digitsVal (drop 8 s)
            in if validateDate year month day then Some (makeDay year month day) else None)
      else None)"

text \<open>\<open>new Date(value)\<close> for a value that is not a string: a number is a count of
  milliseconds since the epoch, \<open>null\<close> is 0 and \<open>undefined\<close> is \<open>NaN\<close>.\<close>

fun newDateVal :: "jsval \<Rightarrow> date" where
  "newDateVal (Num t) =
     (if \<bar>t\<bar> \<le> 8640000000000000
      then Some ((if t < 0 then - \<lfloor>- t\<rfloor> else \<lfloor>t\<rfloor>) div 86400000) else None)"
| "newDateVal Null = Some 0"
| "newDateVal Undefined = None"
| "newDateVal (Str s) = newDateStr s"

text \<open>date-fns \<open>isValid\<close>.\<close>

definition isValid :: "date \<Rightarrow> bool" where
  "isValid d = (d \<noteq> None)"

subsection \<open>Year and ISO week of a day\<close>

text \<open>\<open>getYear\<close> of date-fns is \<open>Date.prototype.getFullYear\<close>: the calendar year.\<close>

definition getYear :: "int \<Rightarrow> int" where
  "getYear d = fst (civilFromDays d)"

text \<open>\<open>Date.prototype.getDay\<close>: 0 is Sunday; 1970-01-01 was a Thursday.\<close>

definition getDay :: "int \<Rightarrow> int" where
  "getDay d = (d + 4) mod 7"

text \<open>date-fns \<open>startOfISOWeek\<close>: the Monday on or before the day.\<close>

definition startOfISOWeek :: "int \<Rightarrow> int" where
  "startOfISOWeek d = d - ((if getDay d < 1 then 7 else 0) + getDay d - 1)"

text \<open>date-fns \<open>getISOWeekYear\<close>: the year whose week containing 4 January the day's
  week belongs to.\<close>

definition getISOWeekYear :: "int \<Rightarrow> int" where
  "getISOWeekYear d =
     (let year = getYear d;
          startOfNextYear = startOfISOWeek (makeDay (year + 1) 0 4);
          startOfThisYear = startOfISOWeek (makeDay year 0 4)
      in if d \<ge> startOfNextYear then year + 1
         else if d \<ge> startOfThisYear then year
         else year - 1)"

definition startOfISOWeekYear :: "int \<Rightarrow> int" where
  "startOfISOWeekYear d = startOfISOWeek (makeDay (getISOWeekYear d) 0 4)"

text \<open>date-fns \<open>getISOWeek\<close>: the number of weeks between the start of the day's week and
  the start of its ISO week-numbering year, plus one.\<close>

definition getISOWeek :: "int \<Rightarrow> int" where
  "getISOWeek d = (startOfISOWeek d - startOfISOWeekYear d) div 7 + 1"

section \<open>The week key\<close>

text \<open>
  Lines 45 to 51 of \<open>getWeekNumber\<close>, shared by both versions of the dashboard:
  \<^verbatim>\<open>
    const weekNum = getISOWeek(date);
    const year = getYear(date);
    const paddedWeek = weekNum.toString().padStart(2, '0');
    return `${year}-W${paddedWeek}`;
  \<close>
\<close>

definition weekKey :: "int \<Rightarrow> string" where
  "weekKey d =
     (let weekNum = getISOWeek d;
          year = getYear d;
          paddedWeek = padStart 2 (CHR ''0'') (showInt weekNum)
      in showInt year @ ''-W'' @ paddedWeek)"

text \<open>
  \<open>getWeekNumber\<close> of the dashboard that fetches its CSV files. A string goes through
  \<open>parseISO\<close>; if that fails and the string splits on \<open>-\<close> or \<open>/\<close> into three parts,
  three candidate dates are built and the first valid one is taken. Any other value goes
  to \<open>new Date\<close>. A missing or invalid date raises inside the \<open>try\<close>, and the handler
  returns \<open>null\<close>: \<open>None\<close> in the model.
\<close>

definition minus1 :: "int option \<Rightarrow> int option" where
  \<comment> \<open>\<open>parts[i] - 1\<close>\<close>
  "minus1 n = map_option (\<lambda>x. x - 1) n"

definition potentialDates :: "string list \<Rightarrow> date list" where
  "potentialDates parts =
     [newDateYMD (toNumberStr (parts ! 2)) (minus1 (toNumberStr (parts ! 0)))
                 (toNumberStr (parts ! 1)),
      newDateYMD (toNumberStr (parts ! 2)) (minus1 (toNumberStr (parts ! 1)))
                 (toNumberStr (parts ! 0)),
      newDateStr (parts ! 2 @ ''-'' @ parts ! 0 @ ''-'' @ parts ! 1)]"

definition parseDateValue :: "jsval \<Rightarrow> date" where
  "parseDateValue dateStr =
     (case dateStr of
        Str s \<Rightarrow>
          (let date = parseISO s
           in if \<not> isValid date
              then (let parts = splitChars (\<lambda>c. c = CHR ''-'' \<or> c = CHR ''/'') s
                    in if length parts = 3
                       then (case find isValid (potentialDates parts) of
                               None \<Rightarrow> None
                             | Some d \<Rightarrow> d)
                       else date)
              else date)
      | v \<Rightarrow> newDateVal v)"

definition getWeekNumber :: "jsval \<Rightarrow> string option" where
  "getWeekNumber dateStr =
     (case parseDateValue dateStr of
        None \<Rightarrow> None
      | Some d \<Rightarrow> Some (weekKey d))"

section \<open>Reading numbers from field values\<close>

fun fracDigits :: "nat \<Rightarrow> rat \<Rightarrow> string" where
  "fracDigits 0 r = []"
| "fracDigits (Suc n) r =
     (if r = 0 then []
      else digitChar (nat \<lfloor>10 * r\<rfloor>) # fracDigits n (10 * r - of_int \<lfloor>10 * r\<rfloor>))"

text \<open>The decimal exponent of a number above 0: how often it is divided by 10 before it
  is below 10, or multiplied by 10 before it reaches 1, up to the given bound. The
  doubles above 0 lie between \<open>10^-324\<close> and \<open>10^309\<close>.\<close>

fun shiftsDown :: "nat \<Rightarrow> rat \<Rightarrow> int" where
  "shiftsDown 0 a = 0"
| "shiftsDown (Suc n) a = (if a < 10 then 0 else 1 + shiftsDown n (a / 10))"

fun shiftsUp :: "nat \<Rightarrow> rat \<Rightarrow> int" where
  "shiftsUp 0 a = 0"
| "shiftsUp (Suc n) a = (if 1 \<le> a then 0 else 1 + shiftsUp n (10 * a))"

text \<open>\<open>Number.prototype.toString\<close>. From \<open>10^-6\<close> up to \<open>10^21\<close> in magnitude, and
  for 0, the integer part, and the fraction digits after a point when there are any.
  Outside that range JavaScript prints exponent notation: the first digit, the other
  digits after a point, \<open>e\<close>, the sign of the exponent and the exponent (\<open>5e-7\<close>,
  \<open>1.2e+22\<close>). The model prints at most 20 fraction digits.\<close>

definition numberToString :: "rat \<Rightarrow> string" where
  "numberToString x =
     (let a = \<bar>x\<bar>;
          minus = (if x < 0 then ''-'' else [])
      in if a = 0 \<or> (1 / 10 ^ 6 \<le> a \<and> a < 10 ^ 21)
         then (let ip = \<lfloor>a\<rfloor>; fr = a - of_int ip
               in minus @ showNat (nat ip)
                  @ (if fr = 0 then [] else CHR ''.'' # fracDigits 20 fr))
         else (let e = (if 1 \<le> a then shiftsDown 400 a else - shiftsUp 400 a);
                   m = (if 0 \<le> e then a / 10 ^ nat e else a * 10 ^ nat (- e));
                   ip = \<lfloor>m\<rfloor>; fr = m - of_int ip
               in minus @ showNat (nat ip)
                  @ (if fr = 0 then [] else CHR ''.'' # fracDigits 20 fr)
                  @ ''e'' @ (if e < 0 then ''-'' else ''+'') @ showNat (nat \<bar>e\<bar>)))"

text \<open>\<open>ToString\<close>, as applied to a property key, a template and the argument of
  \<open>parseInt\<close> and \<open>parseFloat\<close>.\<close>

fun toStringVal :: "jsval \<Rightarrow> string" where
  "toStringVal Undefined = ''undefined''"
| "toStringVal Null = ''null''"
| "toStringVal (Str s) = s"
| "toStringVal (Num x) = numberToString x"

definition isSpace :: "char \<Rightarrow> bool" where
  "isSpace c = (c \<in> {CHR '' '', CHR 0x09, CHR 0x0A, CHR 0x0B, CHR 0x0C, CHR 0x0D})"

definition stripSign :: "string \<Rightarrow> bool \<times> string" where
  \<comment> \<open>an optional leading sign: whether it is a minus, and the rest\<close>
  "stripSign s =
     (case s of
        [] \<Rightarrow> (False, [])
      | c # cs \<Rightarrow> (if c = CHR ''-'' then (True, cs)
                  else if c = CHR ''+'' then (False, cs) else (False, s)))"

text \<open>\<open>parseInt(string, 10)\<close>: leading white space, an optional sign and the longest run
  of decimal digits; \<open>NaN\<close> (\<open>None\<close>) when there is no digit.\<close>

definition parseIntStr :: "string \<Rightarrow> int option" where
  "parseIntStr s =
     (let (neg, u) = stripSign (dropWhile isSpace s);
          ds = takeWhile isDigit u
      in if ds = [] then None
         else Some (if neg then - digitsVal ds else digitsVal ds))"

definition parseInt :: "jsval \<Rightarrow> int option" where
  "parseInt v = parseIntStr (toStringVal v)"

text \<open>\<open>parseFloat(string)\<close>: leading white space, an optional sign, digits with an
  optional fraction (or a fraction alone) and an optional exponent. The literal
  \<open>Infinity\<close>, which JavaScript also accepts, has no value in the model and counts as
  \<open>NaN\<close>.\<close>

definition parseExponent :: "string \<Rightarrow> int" where
  \<comment> \<open>the exponent part at the head of the string, 0 if there is none\<close>
  "parseExponent s =
     (case s of
        [] \<Rightarrow> 0
      | c # cs \<Rightarrow>
          (if c = CHR ''e'' \<or> c = CHR ''E''
           then (let (neg, u) = stripSign cs; ds = takeWhile isDigit u
                 in if ds = [] then 0
                    else (if neg then - digitsVal ds else digitsVal ds))
           else 0))"

definition parseFloatStr :: "string \<Rightarrow> rat option" where
  "parseFloatStr s =
     (let (neg, u) = stripSign (dropWhile isSpace s);
          ip = takeWhile isDigit u;
          r1 = dropWhile isDigit u;
          hasPoint = (r1 \<noteq> [] \<and> hd r1 = CHR ''.'');
          fp = (if hasPoint then takeWhile isDigit (tl r1) else []);
          r2 = (if hasPoint then dropWhile isDigit (tl r1) else r1);
          e = parseExponent r2;
          m = of_int (digitsVal ip) + of_int (digitsVal fp) / 10 ^ length fp;
          v = (if e < 0 then m / 10 ^ nat (- e) else m * 10 ^ nat e)
      in if ip = [] \<and> fp = [] then None
         else Some (if neg then - v else v))"

definition parseFloat :: "jsval \<Rightarrow> rat option" where
  "parseFloat v = parseFloatStr (toStringVal v)"

section \<open>Objects used as dictionaries\<close>

text \<open>
  The aggregates are plain objects filled by assignment. An object is modelled by its own
  properties in the order they were created. Names inherited from \<open>Object.prototype\<close>
  (such as \<open>constructor\<close>) are not modelled: a lookup of a key that was never assigned
  gives \<open>undefined\<close>.
\<close>

type_synonym 'v obj = "(string \<times> 'v) list"

definition objGet :: "'v obj \<Rightarrow> string \<Rightarrow> 'v option" where
  "objGet obj k = map_of obj k"

text \<open>\<open>obj[k] = v\<close>: an existing property keeps its place, a new one goes last.\<close>

fun objSet :: "string \<Rightarrow> 'v \<Rightarrow> 'v obj \<Rightarrow> 'v obj" where
  "objSet k v [] = [(k, v)]"
| "objSet k v (p # ps) = (if fst p = k then (k, v) # ps else p # objSet k v ps)"

text \<open>An array index is the decimal form of an integer from 0 to \<open>2^32 - 2\<close>.\<close>

definition isArrayIndex :: "string \<Rightarrow> bool" where
  "isArrayIndex s =
     (s \<noteq> [] \<and> list_all isDigit s \<and> (s = ''0'' \<or> hd s \<noteq> CHR ''0'')
      \<and> digitsVal s < 4294967295)"

text \<open>\<open>Object.keys\<close>: keys that are array indices first, in ascending numeric order, then
  the other keys in creation order.\<close>

definition objectKeys :: "'v obj \<Rightarrow> string list" where
  "objectKeys obj =
     (let ks = map fst obj
      in sort_key digitsVal (filter isArrayIndex ks) @ filter (\<lambda>k. \<not> isArrayIndex k) ks)"

text \<open>\<open>Object.values\<close>: the values in the order of \<open>Object.keys\<close>.\<close>

definition objectValues :: "'v obj \<Rightarrow> 'v list" where
  "objectValues obj = concat (map (\<lambda>k. case objGet obj k of None \<Rightarrow> [] | Some v \<Rightarrow> [v])
                                  (objectKeys obj))"

text \<open>The accumulation idiom of the aggregators:
  \<^verbatim>\<open>
    if (!bucket[key]) { bucket[key] = 0; }
    bucket[key] += amount;
  \<close>
  A bucket that is missing or holds 0 is set to 0 first. The amounts are rational numbers
  and the sum is exact; the source adds doubles, and each of its additions rounds to the
  nearest double.\<close>

definition numOr0 :: "rat option \<Rightarrow> rat" where
  "numOr0 v = (case v of None \<Rightarrow> 0 | Some x \<Rightarrow> x)"

definition addTo :: "rat obj \<Rightarrow> string \<Rightarrow> rat \<Rightarrow> rat obj" where
  "addTo bucket key amount =
     (let b = (if numOr0 (objGet bucket key) = 0 then objSet key 0 bucket else bucket)
      in objSet key (numOr0 (objGet b key) + amount) b)"

section \<open>The product index\<close>

text \<open>\<open>processProductData\<close> (lines 328 to 349). The loop body, then the loop over the
  catalog starting from the empty object.\<close>

definition productNameOf :: "rawRecord \<Rightarrow> jsval" where
  "productNameOf product =
     orElse (orElse (orElse (field product ''Product Name'') (field product ''ProductName''))
                    (field product ''Name''))
            (field product ''Product'')"

definition unitsPerCaseOf :: "rawRecord \<Rightarrow> int option" where
  "unitsPerCaseOf product =
     parseInt (orElse (orElse (orElse (field product ''Units Per Case'')
                                      (field product ''UnitsPerCase''))
                              (field product ''Units''))
                      (Str ''1''))"

definition productStep :: "int obj \<Rightarrow> rawRecord \<Rightarrow> int obj" where
  "productStep productMap product =
     (let productName = productNameOf product;
          unitsPerCase = unitsPerCaseOf product
      in case unitsPerCase of
           None \<Rightarrow> productMap
         | Some u \<Rightarrow> (if truthy productName \<and> u > 0
                      then objSet (toStringVal productName) u productMap
                      else productMap))"

definition processProductData :: "rawRecord list \<Rightarrow> int obj" where
  "processProductData products = foldl productStep [] products"

section \<open>The aggregators\<close>

subsection \<open>Sales orders\<close>

record salesTotals =
  salesByWeek :: "rat obj"
  salesByStoreAndWeek :: "rat obj obj"

text \<open>The body of the loop of \<open>processSalesData\<close> (lines 360 to 399): the four
  constants it reads from the order, then the checks and the accumulation. Each
  \<open>return\<close> of the source leaves the totals as they are.\<close>

definition orderProduct :: "rawRecord \<Rightarrow> jsval" where
  "orderProduct order =
     orElse (orElse (field order ''Product'') (field order ''Product Name''))
            (field order ''ProductName'')"

definition orderQuantity :: "rawRecord \<Rightarrow> int option" where
  "orderQuantity order =
     parseInt (orElse (orElse (field order ''Quantity'') (field order ''Qty'')) (Num 0))"

definition orderCustomer :: "rawRecord \<Rightarrow> jsval" where
  "orderCustomer order =
     orElse (orElse (orElse (field order ''Customer'') (field order ''Store''))
                    (field order ''Client''))
            (Str ''Unknown'')"

definition orderDeliveryDate :: "rawRecord \<Rightarrow> jsval" where
  "orderDeliveryDate order =
     orElse (orElse (field order ''Delivery Date'') (field order ''DeliveryDate''))
            (field order ''Date'')"

definition salesStep :: "int obj \<Rightarrow> salesTotals \<Rightarrow> rawRecord \<Rightarrow> salesTotals" where
  "salesStep productMap acc order =
     (let product = orderProduct order;
          quantity = orderQuantity order;
          customer = orderCustomer order;
          deliveryDate = orderDeliveryDate order
      in case quantity of
           None \<Rightarrow> acc
         | Some q \<Rightarrow>
             if \<not> truthy product \<or> q = 0 \<or> \<not> truthy deliveryDate \<or> q \<le> 0 then acc
             else
               (case objGet productMap (toStringVal product) of
                  None \<Rightarrow> acc
                | Some unitsPerCase \<Rightarrow>
                    if unitsPerCase = 0 then acc
                    else
                      (let cases = of_int q / of_int unitsPerCase
                       in case getWeekNumber deliveryDate of
                            None \<Rightarrow> acc
                          | Some week \<Rightarrow>
                              if week = [] then acc
                              else
                                (let store = toStringVal customer;
                                     byStore = salesByStoreAndWeek acc;
                                     byStore1 = (if objGet byStore store = None
                                                 then objSet store [] byStore else byStore);
                                     weeks = (case objGet byStore1 store of
                                                None \<Rightarrow> [] | Some w \<Rightarrow> w)
                                 in \<lparr> salesByWeek = addTo (salesByWeek acc) week cases,
                                      salesByStoreAndWeek =
                                        objSet store (addTo weeks week cases) byStore1 \<rparr>))))"

definition processSalesData :: "rawRecord list \<Rightarrow> int obj \<Rightarrow> salesTotals" where
  "processSalesData salesOrders productMap =
     foldl (salesStep productMap) \<lparr> salesByWeek = [], salesByStoreAndWeek = [] \<rparr> salesOrders"

subsection \<open>Purchase orders\<close>

text \<open>The body of the loop of \<open>processPurchaseData\<close> (lines 412 to 441).\<close>

definition poProduct :: "rawRecord \<Rightarrow> jsval" where
  "poProduct po =
     orElse (orElse (field po ''Product Name'') (field po ''Product'')) (field po ''ProductName'')"

definition poQuantity :: "rawRecord \<Rightarrow> int option" where
  "poQuantity po =
     parseInt (orElse (orElse (orElse (field po ''Purchase Quantity'') (field po ''Quantity''))
                              (field po ''Qty''))
                      (Num 0))"

definition poDate :: "rawRecord \<Rightarrow> jsval" where
  "poDate po =
     orElse (orElse (field po ''Purchase Order Date'') (field po ''PODate'')) (field po ''Date'')"

definition purchaseStep :: "int obj \<Rightarrow> rat obj \<Rightarrow> rawRecord \<Rightarrow> rat obj" where
  "purchaseStep productMap poByWeek po =
     (let product = poProduct po;
          quantity = poQuantity po;
          date = poDate po
      in case quantity of
           None \<Rightarrow> poByWeek
         | Some q \<Rightarrow>
             if \<not> truthy product \<or> q = 0 \<or> \<not> truthy date \<or> q \<le> 0 then poByWeek
             else
               (case objGet productMap (toStringVal product) of
                  None \<Rightarrow> poByWeek
                | Some unitsPerCase \<Rightarrow>
                    if unitsPerCase = 0 then poByWeek
                    else
                      (let cases = of_int q / of_int unitsPerCase
                       in case getWeekNumber date of
                            None \<Rightarrow> poByWeek
                          | Some week \<Rightarrow>
                              if week = [] then poByWeek
                              else addTo poByWeek week cases)))"

definition processPurchaseData :: "rawRecord list \<Rightarrow> int obj \<Rightarrow> rat obj" where
  "processPurchaseData purchaseOrders productMap =
     foldl (purchaseStep productMap) [] purchaseOrders"

subsection \<open>Labor clock records\<close>

text \<open>The body of the loop of \<open>processClockData\<close> (lines 454 to 471).\<close>

definition clockDateIn :: "rawRecord \<Rightarrow> jsval" where
  "clockDateIn clock =
     orElse (orElse (field clock ''Date In'') (field clock ''DateIn'')) (field clock ''Date'')"

definition clockLaborHours :: "rawRecord \<Rightarrow> rat option" where
  "clockLaborHours clock =
     parseFloat (orElse (orElse (orElse (field clock ''Total Less Break'')
                                        (field clock ''TotalLessBreak''))
                                (field clock ''Hours''))
                        (Num 0))"

definition clockStep :: "rat obj \<Rightarrow> rawRecord \<Rightarrow> rat obj" where
  "clockStep laborHoursByWeek clock =
     (let dateIn = clockDateIn clock;
          laborHours = clockLaborHours clock
      in case laborHours of
           None \<Rightarrow> laborHoursByWeek
         | Some h \<Rightarrow>
             if \<not> truthy dateIn \<or> h \<le> 0 then laborHoursByWeek
             else
               (case getWeekNumber dateIn of
                  None \<Rightarrow> laborHoursByWeek
                | Some week \<Rightarrow>
                    if week = [] then laborHoursByWeek
                    else addTo laborHoursByWeek week h))"

definition processClockData :: "rawRecord list \<Rightarrow> rat obj" where
  "processClockData clocks = foldl clockStep [] clocks"

section \<open>The metrics\<close>

subsection \<open>Sorting\<close>

text \<open>
  \<open>Array.prototype.sort(comparefn)\<close>. The comparator returns a number or \<open>NaN\<close>
  (\<open>None\<close>), and the sort reads \<open>NaN\<close> as 0. The sort is stable; for a comparator that
  orders the elements consistently the result is the stable insertion sort below.
\<close>

definition sortCompare :: "('a \<Rightarrow> 'a \<Rightarrow> rat option) \<Rightarrow> 'a \<Rightarrow> 'a \<Rightarrow> rat" where
  "sortCompare comparefn x y = (case comparefn x y of None \<Rightarrow> 0 | Some v \<Rightarrow> v)"

fun insertBy :: "('a \<Rightarrow> 'a \<Rightarrow> rat option) \<Rightarrow> 'a \<Rightarrow> 'a list \<Rightarrow> 'a list" where
  "insertBy comparefn x [] = [x]"
| "insertBy comparefn x (y # ys) =
     (if sortCompare comparefn x y \<le> 0 then x # y # ys else y # insertBy comparefn x ys)"

definition arraySort :: "('a \<Rightarrow> 'a \<Rightarrow> rat option) \<Rightarrow> 'a list \<Rightarrow> 'a list" where
  "arraySort comparefn xs = foldr (insertBy comparefn) xs []"

text \<open>\<open>[...new Set(xs)]\<close>: the elements in order of first occurrence.\<close>

definition newSet :: "'a list \<Rightarrow> 'a list" where
  "newSet xs = foldl (\<lambda>acc x. if x \<in> set acc then acc else acc @ [x]) [] xs"

text \<open>\<open>a.split('-W')\<close>.\<close>

fun splitDashW :: "string \<Rightarrow> string list" where
  "splitDashW [] = [[]]"
| "splitDashW [c] = [[c]]"
| "splitDashW (c # d # cs) =
     (if c = CHR ''-'' \<and> d = CHR ''W'' then [] # splitDashW cs
      else (case splitDashW (d # cs) of
              [] \<Rightarrow> [[c]]
            | x # xs \<Rightarrow> (c # x) # xs))"

text \<open>Element \<open>i\<close> of a destructured array of strings: \<open>undefined\<close> past the end.\<close>

definition element :: "string list \<Rightarrow> nat \<Rightarrow> jsval" where
  "element xs i = (if i < length xs then Str (xs ! i) else Undefined)"

text \<open>\<open>x - y\<close> on results of \<open>parseInt\<close>.\<close>

definition numSub :: "int option \<Rightarrow> int option \<Rightarrow> rat option" where
  "numSub x y = (case (x, y) of (Some a, Some b) \<Rightarrow> Some (of_int (a - b)) | _ \<Rightarrow> None)"

text \<open>The comparator of the week sort (lines 507 to 518). The source calls \<open>parseInt\<close>
  without a radix, which differs from radix 10 only on strings that begin with \<open>0x\<close>.\<close>

definition weekCompare :: "string \<Rightarrow> string \<Rightarrow> rat option" where
  "weekCompare a b =
     (let yearA = element (splitDashW a) 0; weekA = element (splitDashW a) 1;
          yearB = element (splitDashW b) 0; weekB = element (splitDashW b) 1
      in if yearA \<noteq> yearB then numSub (parseInt yearA) (parseInt yearB)
         else numSub (parseInt weekA) (parseInt weekB))"

subsection \<open>calculateMetrics\<close>

text \<open>
  The value of a division. Division in JavaScript raises no error: for finite numbers
  \<open>x\<close> and \<open>y\<close> with \<open>y\<close> not 0, \<open>x / y\<close> is the quotient; \<open>x / 0\<close> is \<open>Infinity\<close> or
  \<open>-Infinity\<close>, by the sign of \<open>x\<close>, and \<open>0 / 0\<close> is \<open>NaN\<close>. The quotient itself is
  the exact rational one; the source rounds it to a double.
\<close>

datatype jsnum = Finite rat | PosInfinity | NegInfinity | NaN

definition numDivide :: "rat \<Rightarrow> rat \<Rightarrow> jsnum" where
  "numDivide x y =
     (if y = 0
      then (if 0 < x then PosInfinity else if x < 0 then NegInfinity else NaN)
      else Finite (x / y))"

text \<open>\<open>v || 0\<close> on such a value: \<open>NaN\<close> and 0 are falsy.\<close>

definition orZero :: "jsnum \<Rightarrow> jsnum" where
  "orZero v = (if v = NaN \<or> v = Finite 0 then Finite 0 else v)"

record weekMetrics =
  week :: string
  receivedCases :: rat
  shippedCases :: rat
  laborHours :: rat
  totalCasesPerLaborHour :: jsnum

record weekRow =
  rowWeek :: string
  received :: rat
  shipped :: rat
  rowLaborHours :: rat
  rowTotalCasesPerLaborHour :: jsnum

record storeRow =
  store :: string
  total :: rat

record storeWeekRow =
  entryWeek :: string
  cases :: rat
  entryStore :: string

record metrics =
  casesPerLaborHour :: "weekMetrics list"
  salesAndPOByWeek :: "weekRow list"
  topStoresByWeek :: "storeRow list"
  allStoreData :: "storeWeekRow list"
  allStores :: "string list"
  weeks :: "string list"

text \<open>The local constants of \<open>calculateMetrics\<close> (lines 476 to 590), one definition
  each, in the order of the source.\<close>

definition allWeeksOf :: "rat obj \<Rightarrow> rat obj \<Rightarrow> rat obj \<Rightarrow> string list" where
  "allWeeksOf salesW poW laborW =
     arraySort weekCompare
       (newSet (objectKeys salesW @ objectKeys poW @ objectKeys laborW))"

definition weekMetricsOf :: "rat obj \<Rightarrow> rat obj \<Rightarrow> rat obj \<Rightarrow> string \<Rightarrow> weekMetrics" where
  "weekMetricsOf salesW poW laborW wk =
     (let receivedCases = numOr0 (objGet poW wk);
          shippedCases = numOr0 (objGet salesW wk);
          laborHours = numOr0 (objGet laborW wk)
      in \<lparr> week = wk, receivedCases = receivedCases, shippedCases = shippedCases,
           laborHours = laborHours,
           totalCasesPerLaborHour =
             (if laborHours > 0 then numDivide (receivedCases + shippedCases) laborHours
              else Finite 0) \<rparr>)"

definition casesPerLaborHourByWeekOf ::
  "rat obj \<Rightarrow> rat obj \<Rightarrow> rat obj \<Rightarrow> string list \<Rightarrow> weekMetrics obj" where
  "casesPerLaborHourByWeekOf salesW poW laborW allWeeks =
     foldl (\<lambda>acc wk. objSet wk (weekMetricsOf salesW poW laborW wk) acc)
           [] allWeeks"

definition formattedWeeklyDataOf ::
  "rat obj \<Rightarrow> rat obj \<Rightarrow> rat obj \<Rightarrow> weekMetrics obj \<Rightarrow> string list \<Rightarrow> weekRow list" where
  "formattedWeeklyDataOf salesW poW laborW byWeek allWeeks =
     map (\<lambda>wk. \<lparr> rowWeek = wk,
                 received = numOr0 (objGet poW wk),
                 shipped = numOr0 (objGet salesW wk),
                 rowLaborHours = numOr0 (objGet laborW wk),
                 rowTotalCasesPerLaborHour =
                   (case objGet byWeek wk of
                      None \<Rightarrow> Finite 0
                    | Some m \<Rightarrow> orZero (totalCasesPerLaborHour m)) \<rparr>)
         allWeeks"

definition storeTotalOf :: "rat obj obj \<Rightarrow> rat obj" where
  "storeTotalOf storeWeeks =
     foldl (\<lambda>acc st.
              objSet st (foldl (\<lambda>sum c. sum + c) 0
                           (objectValues (case objGet storeWeeks st of
                                            None \<Rightarrow> [] | Some w \<Rightarrow> w)))
                     acc)
           [] (objectKeys storeWeeks)"

definition storeCompare :: "rat obj \<Rightarrow> string \<Rightarrow> string \<Rightarrow> rat option" where
  \<comment> \<open>\<open>(a, b) => storeTotal[b] - storeTotal[a]\<close>\<close>
  "storeCompare storeTotal a b =
     (case (objGet storeTotal b, objGet storeTotal a) of
        (Some tb, Some ta) \<Rightarrow> Some (tb - ta)
      | _ \<Rightarrow> None)"

definition allStoresOf :: "rat obj \<Rightarrow> string list" where
  "allStoresOf storeTotal = arraySort (storeCompare storeTotal) (objectKeys storeTotal)"

definition topStoresDataOf :: "rat obj \<Rightarrow> string list \<Rightarrow> storeRow list" where
  "topStoresDataOf storeTotal topStores =
     map (\<lambda>st. \<lparr> store = st, total = numOr0 (objGet storeTotal st) \<rparr>) topStores"

definition storeWeekCases :: "rat obj obj \<Rightarrow> string \<Rightarrow> string \<Rightarrow> rat" where
  \<comment> \<open>\<open>salesByStoreAndWeek[store]?.[week] || 0\<close>\<close>
  "storeWeekCases storeWeeks st wk =
     (case objGet storeWeeks st of
        None \<Rightarrow> 0
      | Some w \<Rightarrow> numOr0 (objGet w wk))"

definition allStoreDataOf :: "rat obj obj \<Rightarrow> string list \<Rightarrow> string list \<Rightarrow> storeWeekRow list" where
  "allStoreDataOf storeWeeks allWeeks stores =
     concat (map (\<lambda>wk. map (\<lambda>st. \<lparr> entryWeek = wk,
                                     cases = storeWeekCases storeWeeks st wk,
                                     entryStore = st \<rparr>)
                            stores)
                 allWeeks)"

text \<open>\<open>calculateMetrics\<close>. The two \<open>throw\<close> statements, which the \<open>catch\<close> block logs
  and raises again, are the \<open>Inl\<close> results with the message of the error.\<close>

definition calculateMetrics ::
  "rawRecord list \<Rightarrow> rawRecord list \<Rightarrow> rawRecord list \<Rightarrow> rawRecord list \<Rightarrow> string + metrics"
where
  "calculateMetrics products salesOrders purchaseOrders clocks =
     (let productMap = processProductData products
      in if length (objectKeys productMap) = 0 then Inl ''No valid products found''
         else
           (let sales = processSalesData salesOrders productMap;
                poByWeek = processPurchaseData purchaseOrders productMap;
                laborHoursByWeek = processClockData clocks;
                allWeeks = allWeeksOf (salesByWeek sales) poByWeek laborHoursByWeek
            in if length allWeeks = 0 then Inl ''No valid data weeks found''
               else
                 (let casesPerLaborHourByWeek =
                        casesPerLaborHourByWeekOf (salesByWeek sales) poByWeek laborHoursByWeek
                          allWeeks;
                      formattedWeeklyData =
                        formattedWeeklyDataOf (salesByWeek sales) poByWeek laborHoursByWeek
                          casesPerLaborHourByWeek allWeeks;
                      storeTotal = storeTotalOf (salesByStoreAndWeek sales);
                      allStores = allStoresOf storeTotal;
                      topStores = take 10 allStores;
                      topStoresData = topStoresDataOf storeTotal topStores;
                      allStoreData =
                        allStoreDataOf (salesByStoreAndWeek sales) allWeeks allStores
                  in Inr \<lparr> casesPerLaborHour = objectValues casesPerLaborHourByWeek,
                          salesAndPOByWeek = formattedWeeklyData,
                          topStoresByWeek = topStoresData,
                          allStoreData = allStoreData,
                          allStores = allStores,
                          weeks = allWeeks \<rparr>)))"

section \<open>The second dashboard file\<close>

text \<open>
  Lines 894 to 1433 hold a second dashboard component, which imports its CSV files
  instead of fetching them. It has its own \<open>getWeekNumber\<close> and its own
  \<open>calculateMetrics\<close>; their models carry the suffix 2.
\<close>

text \<open>\<open>ToString\<close> of a number that may be \<open>NaN\<close>.\<close>

definition numStr :: "int option \<Rightarrow> string" where
  "numStr n = (case n of None \<Rightarrow> ''NaN'' | Some i \<Rightarrow> showInt i)"

text \<open>
  \<open>getWeekNumber\<close> (lines 982 to 998). There is no validity check: on the Invalid Date
  \<open>getISOWeek\<close> and \<open>getYear\<close> return \<open>NaN\<close>, and the key is built from that. None of
  the calls raises for a string, a number, \<open>null\<close> or \<open>undefined\<close>, so the \<open>catch\<close>
  block with its \<open>'Unknown'\<close> is never entered.
\<close>

definition getWeekNumber2 :: "jsval \<Rightarrow> string" where
  "getWeekNumber2 dateStr =
     (let date = (case dateStr of Str s \<Rightarrow> parseISO s | v \<Rightarrow> newDateVal v);
          weekNum = map_option getISOWeek date;
          year = map_option getYear date;
          paddedWeek = padStart 2 (CHR ''0'') (numStr weekNum)
      in numStr year @ ''-W'' @ paddedWeek)"

text \<open>The product map (lines 1003 to 1008): the units-per-case value is stored as it
  comes, without parsing.\<close>

definition productStep2 :: "jsval obj \<Rightarrow> rawRecord \<Rightarrow> jsval obj" where
  "productStep2 productMap product =
     (if truthy (field product ''Product Name'')
      then objSet (toStringVal (field product ''Product Name''))
                  (orElse (field product ''Units Per Case'') (Num 1)) productMap
      else productMap)"

text \<open>
  \<open>quantity / unitsPerCase\<close> on field values. The model follows the division when both
  are numbers and the divisor is not 0. In every other case JavaScript goes on with a
  coerced string, \<open>NaN\<close> or an infinity; the model stops there with \<open>None\<close>, and so do
  the loops below.
\<close>

definition divide :: "jsval \<Rightarrow> jsval \<Rightarrow> rat option" where
  "divide a b =
     (case (a, b) of
        (Num x, Num y) \<Rightarrow> (if y = 0 then None else Some (x / y))
      | _ \<Rightarrow> None)"

text \<open>The body of the sales loop (lines 1014 to 1048).\<close>

definition salesStep2 :: "jsval obj \<Rightarrow> salesTotals \<Rightarrow> rawRecord \<Rightarrow> salesTotals option" where
  "salesStep2 productMap acc order =
     (let product = field order ''Product'';
          quantity = orElse (field order ''Quantity'') (Num 0);
          customer = orElse (field order ''Customer'') (Str ''Unknown'')
      in case (if truthy product then objGet productMap (toStringVal product) else None) of
           None \<Rightarrow> Some acc
         | Some unitsPerCase \<Rightarrow>
             if \<not> truthy unitsPerCase then Some acc
             else
               (case divide quantity unitsPerCase of
                  None \<Rightarrow> None
                | Some amount \<Rightarrow>
                    (let deliveryDate = field order ''Delivery Date''
                     in if \<not> truthy deliveryDate then Some acc
                        else
                          (let week = getWeekNumber2 deliveryDate
                           in if week = ''Unknown'' then Some acc
                              else
                                (let store = toStringVal customer;
                                     byStore = salesByStoreAndWeek acc;
                                     byStore1 = (if objGet byStore store = None
                                                 then objSet store [] byStore else byStore);
                                     weeks = (case objGet byStore1 store of
                                                None \<Rightarrow> [] | Some w \<Rightarrow> w)
                                 in Some \<lparr> salesByWeek = addTo (salesByWeek acc) week amount,
                                           salesByStoreAndWeek =
                                             objSet store (addTo weeks week amount)
                                                    byStore1 \<rparr>)))))"

fun processSales2 :: "jsval obj \<Rightarrow> salesTotals \<Rightarrow> rawRecord list \<Rightarrow> salesTotals option" where
  "processSales2 productMap acc [] = Some acc"
| "processSales2 productMap acc (order # orders) =
     (case salesStep2 productMap acc order of
        None \<Rightarrow> None
      | Some acc' \<Rightarrow> processSales2 productMap acc' orders)"

text \<open>The body of the purchase order loop (lines 1053 to 1077).\<close>

definition purchaseStep2 :: "jsval obj \<Rightarrow> rat obj \<Rightarrow> rawRecord \<Rightarrow> rat obj option" where
  "purchaseStep2 productMap poByWeek po =
     (let product = field po ''Product Name'';
          quantity = orElse (field po ''Purchase Quantity'') (Num 0)
      in case (if truthy product then objGet productMap (toStringVal product) else None) of
           None \<Rightarrow> Some poByWeek
         | Some unitsPerCase \<Rightarrow>
             if \<not> truthy unitsPerCase then Some poByWeek
             else
               (case divide quantity unitsPerCase of
                  None \<Rightarrow> None
                | Some amount \<Rightarrow>
                    (let poDate = field po ''Purchase Order Date''
                     in if \<not> truthy poDate then Some poByWeek
                        else
                          (let week = getWeekNumber2 poDate
                           in if week = ''Unknown'' then Some poByWeek
                              else Some (addTo poByWeek week amount)))))"

fun processPurchases2 :: "jsval obj \<Rightarrow> rat obj \<Rightarrow> rawRecord list \<Rightarrow> rat obj option" where
  "processPurchases2 productMap poByWeek [] = Some poByWeek"
| "processPurchases2 productMap poByWeek (po # pos) =
     (case purchaseStep2 productMap poByWeek po of
        None \<Rightarrow> None
      | Some poByWeek' \<Rightarrow> processPurchases2 productMap poByWeek' pos)"

text \<open>The body of the clock loop (lines 1082 to 1096). Hours that are a string would be
  appended to the bucket as text; the model stops there.\<close>

definition clockStep2 :: "rat obj \<Rightarrow> rawRecord \<Rightarrow> rat obj option" where
  "clockStep2 laborHoursByWeek clock =
     (if \<not> truthy (field clock ''Date In'') then Some laborHoursByWeek
      else
        (let dateIn = field clock ''Date In'';
             week = getWeekNumber2 dateIn
         in if week = ''Unknown'' then Some laborHoursByWeek
            else
              (case orElse (field clock ''Total Less Break'') (Num 0) of
                 Num hours \<Rightarrow> Some (addTo laborHoursByWeek week hours)
               | _ \<Rightarrow> None)))"

fun processClocks2 :: "rat obj \<Rightarrow> rawRecord list \<Rightarrow> rat obj option" where
  "processClocks2 laborHoursByWeek [] = Some laborHoursByWeek"
| "processClocks2 laborHoursByWeek (clock # clocks) =
     (case clockStep2 laborHoursByWeek clock of
        None \<Rightarrow> None
      | Some laborHoursByWeek' \<Rightarrow> processClocks2 laborHoursByWeek' clocks)"

text \<open>The weeks of the second file (line 1099): the keys of the sales and purchase
  totals only.\<close>

definition allWeeksOf2 :: "rat obj \<Rightarrow> rat obj \<Rightarrow> string list" where
  "allWeeksOf2 salesW poW = arraySort weekCompare (newSet (objectKeys salesW @ objectKeys poW))"

text \<open>
  \<open>calculateMetrics\<close> of the second file (lines 1001 to 1188). From line 1112 on it
  computes the weekly rows, the store totals and the store series as the first file
  does. Its result lists the stores as objects with their weekly data; the model keeps
  the store names in \<open>allStores\<close> and the name and total of the first ten in
  \<open>topStoresByWeek\<close>. The function has no \<open>throw\<close>; \<open>None\<close> is a run that left the
  model in one of the loops.
\<close>

definition calculateMetrics2 ::
  "rawRecord list \<Rightarrow> rawRecord list \<Rightarrow> rawRecord list \<Rightarrow> rawRecord list \<Rightarrow> metrics option"
where
  "calculateMetrics2 products salesOrders purchaseOrders clocks =
     (let productMap = foldl productStep2 [] products
      in case processSales2 productMap \<lparr> salesByWeek = [], salesByStoreAndWeek = [] \<rparr>
                salesOrders of
           None \<Rightarrow> None
         | Some sales \<Rightarrow>
             (case processPurchases2 productMap [] purchaseOrders of
                None \<Rightarrow> None
              | Some poByWeek \<Rightarrow>
                  (case processClocks2 [] clocks of
                     None \<Rightarrow> None
                   | Some laborHoursByWeek \<Rightarrow>
                       (let allWeeks = allWeeksOf2 (salesByWeek sales) poByWeek;
                            casesPerLaborHourByWeek =
                              casesPerLaborHourByWeekOf (salesByWeek sales) poByWeek
                                laborHoursByWeek allWeeks;
                            formattedWeeklyData =
                              formattedWeeklyDataOf (salesByWeek sales) poByWeek
                                laborHoursByWeek casesPerLaborHourByWeek allWeeks;
                            storeTotal = storeTotalOf (salesByStoreAndWeek sales);
                            topStores = take 10 (allStoresOf storeTotal);
                            allStores = allStoresOf storeTotal;
                            allStoreData =
                              allStoreDataOf (salesByStoreAndWeek sales) allWeeks allStores
                        in Some \<lparr> casesPerLaborHour = objectValues casesPerLaborHourByWeek,
                                  salesAndPOByWeek = formattedWeeklyData,
                                  topStoresByWeek = topStoresDataOf storeTotal topStores,
                                  allStoreData = allStoreData,
                                  allStores = allStores,
                                  weeks = allWeeks \<rparr>))))"

section \<open>Reference notions of the specification\<close>

text \<open>
  The week key as the specification words it: the ISO week number with the ISO
  week-numbering year, the week padded to two digits. It is stated here to be compared
  with \<open>weekKey\<close>, which is what the code computes.
\<close>

definition isoWeekKey :: "int \<Rightarrow> string" where
  "isoWeekKey d = showInt (getISOWeekYear d) @ ''-W'' @ padStart 2 (CHR ''0'') (showInt (getISOWeek d))"

text \<open>Totals whose buckets all hold an amount above 0.\<close>

definition positiveBuckets :: "rat obj \<Rightarrow> bool" where
  "positiveBuckets b = (\<forall>(k, v) \<in> set b. 0 < v)"

text \<open>A catalog row that \<open>processProductData\<close> puts into the product map: its name is
  truthy and \<open>parseInt\<close> of its units-per-case value (or of \<open>'1'\<close>) is above 0.\<close>

definition indexable :: "rawRecord \<Rightarrow> bool" where
  "indexable product =
     (truthy (productNameOf product)
      \<and> (case unitsPerCaseOf product of None \<Rightarrow> False | Some u \<Rightarrow> 0 < u))"

text \<open>The sum of a store's cases over its weeks.\<close>

definition storeSum :: "rat obj obj \<Rightarrow> string \<Rightarrow> rat" where
  "storeSum storeWeeks st =
     (case objGet storeWeeks st of None \<Rightarrow> 0 | Some w \<Rightarrow> sum_list (objectValues w))"

text \<open>The year and the week that the week sort reads out of a key, and the order of two
  keys by year first and week second.\<close>

definition keyYear :: "string \<Rightarrow> int option" where
  "keyYear k = parseInt (element (splitDashW k) 0)"

definition keyWeek :: "string \<Rightarrow> int option" where
  "keyWeek k = parseInt (element (splitDashW k) 1)"

definition weekKeyLeq :: "string \<Rightarrow> string \<Rightarrow> bool" where
  "weekKeyLeq a b =
     (case (keyYear a, keyWeek a, keyYear b, keyWeek b) of
        (Some ya, Some wa, Some yb, Some wb) \<Rightarrow> ya < yb \<or> (ya = yb \<and> wa \<le> wb)
      | _ \<Rightarrow> False)"

text \<open>
  The cases that a record contributes to the week \<open>wk\<close>: for a record that passes the
  checks of its loop (the product resolves and is in the product map with units that
  are not 0, \<open>parseInt\<close> reads an integer above 0 from the quantity field, the date
  resolves) and whose date gives the week \<open>wk\<close>, that integer divided by the units per
  case; 0 for every other record and every other week.
\<close>

definition salesRecordCases :: "int obj \<Rightarrow> string \<Rightarrow> rawRecord \<Rightarrow> rat" where
  "salesRecordCases productMap wk order =
     (case (orderQuantity order, objGet productMap (toStringVal (orderProduct order)),
            getWeekNumber (orderDeliveryDate order)) of
        (Some q, Some u, Some key) \<Rightarrow>
          if truthy (orderProduct order) \<and> 0 < q \<and> u \<noteq> 0 \<and> truthy (orderDeliveryDate order)
             \<and> key = wk
          then of_int q / of_int u else 0
      | _ \<Rightarrow> 0)"

definition purchaseRecordCases :: "int obj \<Rightarrow> string \<Rightarrow> rawRecord \<Rightarrow> rat" where
  "purchaseRecordCases productMap wk po =
     (case (poQuantity po, objGet productMap (toStringVal (poProduct po)),
            getWeekNumber (poDate po)) of
        (Some q, Some u, Some key) \<Rightarrow>
          if truthy (poProduct po) \<and> 0 < q \<and> u \<noteq> 0 \<and> truthy (poDate po) \<and> key = wk
          then of_int q / of_int u else 0
      | _ \<Rightarrow> 0)"

section \<open>The week key and the calendar year\<close>

text \<open>
  Claim C1: the week key of a parsed date is formatted from the ISO week number and the
  ISO week-numbering year of the date. The code takes the calendar year (\<open>getYear\<close>)
  next to the ISO week number. For 30 December 2024, a Monday that opens week 1 of 2025,
  both versions of \<open>getWeekNumber\<close> return \<open>2024-W01\<close>, where the ISO week-numbering
  year gives \<open>2025-W01\<close>; the week sort of \<open>calculateMetrics\<close> then puts that day
  before 8 January 2024 (\<open>2024-W02\<close>).
\<close>

theorem C1_week_key_takes_calendar_year:
  "parseDateValue (Str ''2024-12-30'') = Some (daysFromCivil 2024 12 30)
   \<and> getWeekNumber (Str ''2024-12-30'') = Some ''2024-W01''
   \<and> getWeekNumber2 (Str ''2024-12-30'') = ''2024-W01''
   \<and> getISOWeek (daysFromCivil 2024 12 30) = 1
   \<and> getISOWeekYear (daysFromCivil 2024 12 30) = 2025
   \<and> isoWeekKey (daysFromCivil 2024 12 30) = ''2025-W01''
   \<and> getWeekNumber (Str ''2024-01-08'') = Some ''2024-W02''
   \<and> arraySort weekCompare [''2024-W02'', ''2024-W01''] = [''2024-W01'', ''2024-W02'']"
  by code_simp

section \<open>The fallback for dates that are not ISO\<close>

text \<open>
  Claim C2: a string that is not ISO and splits into three parts is tried as (month, day,
  year), then (day, month, year), then (year, month, day), and a reading that is not a
  calendar date (month 13, day 45) is rejected. \<open>new Date(year, month, day)\<close> rejects
  nothing that is a number: it carries a month beyond December into the following
  years and a day beyond the month into the following months. For \<open>25/12/2024\<close> the
  first candidate is month 25, day 12 of 2024, which is not a calendar date, yet it is a
  valid \<open>Date\<close>, 12 January 2026, and \<open>find\<close> stops there. The second reading, 25
  December 2024, would give \<open>2024-W52\<close>. \<open>13/45/2024\<close> is accepted as well.
\<close>

theorem C2_fallback_accepts_month_25:
  "parseISO ''25/12/2024'' = None
   \<and> splitChars (\<lambda>c. c = CHR ''-'' \<or> c = CHR ''/'') ''25/12/2024'' = [''25'', ''12'', ''2024'']
   \<and> \<not> validateDate 2024 (25 - 1) 12
   \<and> hd (potentialDates [''25'', ''12'', ''2024'']) = Some (daysFromCivil 2026 1 12)
   \<and> getWeekNumber (Str ''25/12/2024'') = Some ''2026-W03''
   \<and> validateDate 2024 (12 - 1) 25
   \<and> weekKey (daysFromCivil 2024 12 25) = ''2024-W52''
   \<and> getWeekNumber (Str ''13/45/2024'') = Some ''2025-W07''"
  by code_simp

text \<open>More generally, when the three parts are runs of digits and the day lies within
  the range of \<open>Date\<close>, the first candidate is a valid date whatever its month and day
  are, and \<open>find\<close> returns it: the second and the third candidate are never used.\<close>

lemma first_candidate_is_taken:
  assumes "toNumberStr a = Some m" "toNumberStr b = Some d" "toNumberStr c = Some y"
    "\<bar>makeDay (if 0 \<le> y \<and> y \<le> 99 then 1900 + y else y) (m - 1) d\<bar> \<le> 100000000"
  shows "find isValid (potentialDates [a, b, c])
           = Some (Some (makeDay (if 0 \<le> y \<and> y \<le> 99 then 1900 + y else y) (m - 1) d))"
  using assms
  by (simp add: potentialDates_def newDateYMD_def minus1_def timeClip_def isValid_def)

section \<open>Weeks that have labor hours only\<close>

text \<open>
  Claim C3: the weekly totals have one entry for every week key of the sales, purchase
  and labor totals, so that a week with labor hours only still appears. The second
  dashboard file builds its weeks from the sales and purchase totals alone (line 1099).
  With a catalog of one product, no orders and one clock row for 8 January 2024, it
  returns no week at all, while the first file returns the week \<open>2024-W02\<close> with 5 labor
  hours.
\<close>

theorem C3_second_file_drops_labor_only_week:
  "calculateMetrics2
     [[(''Product Name'', Str ''Widget''), (''Units Per Case'', Num 10)]] [] []
     [[(''Date In'', Str ''2024-01-08''), (''Total Less Break'', Num 5)]]
   = Some \<lparr> casesPerLaborHour = [], salesAndPOByWeek = [], topStoresByWeek = [],
            allStoreData = [], allStores = [], weeks = [] \<rparr>
   \<and> calculateMetrics
     [[(''Product Name'', Str ''Widget''), (''Units Per Case'', Num 10)]] [] []
     [[(''Date In'', Str ''2024-01-08''), (''Total Less Break'', Num 5)]]
   = Inr \<lparr> casesPerLaborHour =
              [\<lparr> week = ''2024-W02'', receivedCases = 0, shippedCases = 0, laborHours = 5,
                 totalCasesPerLaborHour = Finite 0 \<rparr>],
           salesAndPOByWeek =
              [\<lparr> rowWeek = ''2024-W02'', received = 0, shipped = 0, rowLaborHours = 5,
                 rowTotalCasesPerLaborHour = Finite 0 \<rparr>],
           topStoresByWeek = [], allStoreData = [], allStores = [],
           weeks = [''2024-W02''] \<rparr>"
  by code_simp

section \<open>Dates that cannot be parsed\<close>

text \<open>
  Claim C8: for a date that cannot be parsed the normalizer returns a failure signal that
  is no week key, and every aggregator skips the record. The second dashboard file does
  not: its \<open>getWeekNumber\<close> formats the \<open>NaN\<close> week and year of the Invalid Date into
  the string \<open>NaN-WNaN\<close>, which is not the \<open>'Unknown'\<close> its callers test for, and the
  sales loop adds the order to a bucket of that name. The first file returns \<open>null\<close>
  for the same date and skips the order, which leaves it without any week.
\<close>

theorem C8_second_file_buckets_unparsed_date:
  "getWeekNumber2 (Str ''not a date'') = ''NaN-WNaN''
   \<and> calculateMetrics2
     [[(''Product Name'', Str ''Widget''), (''Units Per Case'', Num 10)]]
     [[(''Product'', Str ''Widget''), (''Quantity'', Num 100), (''Customer'', Str ''Acme''),
       (''Delivery Date'', Str ''not a date'')]] [] []
   = Some \<lparr> casesPerLaborHour =
               [\<lparr> week = ''NaN-WNaN'', receivedCases = 0, shippedCases = 10, laborHours = 0,
                  totalCasesPerLaborHour = Finite 0 \<rparr>],
            salesAndPOByWeek =
               [\<lparr> rowWeek = ''NaN-WNaN'', received = 0, shipped = 10, rowLaborHours = 0,
                  rowTotalCasesPerLaborHour = Finite 0 \<rparr>],
            topStoresByWeek = [\<lparr> store = ''Acme'', total = 10 \<rparr>],
            allStoreData = [\<lparr> entryWeek = ''NaN-WNaN'', cases = 10, entryStore = ''Acme'' \<rparr>],
            allStores = [''Acme''], weeks = [''NaN-WNaN''] \<rparr>
   \<and> getWeekNumber (Str ''not a date'') = None
   \<and> calculateMetrics
     [[(''Product Name'', Str ''Widget''), (''Units Per Case'', Num 10)]]
     [[(''Product'', Str ''Widget''), (''Quantity'', Num 100), (''Customer'', Str ''Acme''),
       (''Delivery Date'', Str ''not a date'')]] [] []
   = Inl ''No valid data weeks found''"
  by code_simp

section \<open>Facts about objects\<close>

lemma objGet_Nil: "objGet [] k = None"
  by (simp add: objGet_def)

lemma objGet_objSet:
  "objGet (objSet k v obj) k' = (if k' = k then Some v else objGet obj k')"
  by (induction obj) (auto simp: objGet_def)

lemma keys_objSet:
  "map fst (objSet k v obj) = (if k \<in> set (map fst obj) then map fst obj else map fst obj @ [k])"
  by (induction obj) auto

lemma keyset_objSet: "fst ` set (objSet k v obj) = insert k (fst ` set obj)"
  by (induction obj) auto

lemma distinct_objSet:
  "distinct (map fst obj) \<Longrightarrow> distinct (map fst (objSet k v obj))"
  by (simp add: keys_objSet)

lemma objGet_addTo:
  "objGet (addTo b k c) k' = (if k' = k then Some (numOr0 (objGet b k) + c) else objGet b k')"
  by (simp add: addTo_def Let_def objGet_objSet numOr0_def)

lemma keys_addTo:
  "map fst (addTo b k c) = (if k \<in> set (map fst b) then map fst b else map fst b @ [k])"
  by (auto simp: addTo_def Let_def keys_objSet keyset_objSet)

lemma weekKey_not_empty: "weekKey d \<noteq> []"
  by (simp add: weekKey_def Let_def)

lemma getWeekNumber_not_empty: "getWeekNumber v = Some wk \<Longrightarrow> wk \<noteq> []"
  by (auto simp: getWeekNumber_def weekKey_not_empty split: option.splits)

section \<open>Orders that pass the checks\<close>

text \<open>What the sales loop and the purchase loop do with a row that passes every check:
  the product resolves, the quantity parses to an integer above 0, the product is in the
  product map and the date gives a week.\<close>

lemma salesStep_accepted:
  assumes "truthy (orderProduct order)" "orderQuantity order = Some q" "0 < q"
    "objGet productMap (toStringVal (orderProduct order)) = Some u" "u \<noteq> 0"
    "truthy (orderDeliveryDate order)" "getWeekNumber (orderDeliveryDate order) = Some wk"
  shows "salesByWeek (salesStep productMap acc order)
           = addTo (salesByWeek acc) wk (of_int q / of_int u)"
    and "storeWeekCases (salesByStoreAndWeek (salesStep productMap acc order))
             (toStringVal (orderCustomer order)) wk
          = storeWeekCases (salesByStoreAndWeek acc) (toStringVal (orderCustomer order)) wk
            + of_int q / of_int u"
proof -
  have ne: "wk \<noteq> []" using assms(7) by (rule getWeekNumber_not_empty)
  show "salesByWeek (salesStep productMap acc order)
           = addTo (salesByWeek acc) wk (of_int q / of_int u)"
    using assms ne by (simp add: salesStep_def Let_def)
  show "storeWeekCases (salesByStoreAndWeek (salesStep productMap acc order))
             (toStringVal (orderCustomer order)) wk
          = storeWeekCases (salesByStoreAndWeek acc) (toStringVal (orderCustomer order)) wk
            + of_int q / of_int u"
    using assms ne
    by (simp add: salesStep_def Let_def storeWeekCases_def objGet_objSet objGet_addTo
          objGet_Nil numOr0_def split: option.splits)
qed

lemma purchaseStep_accepted:
  assumes "truthy (poProduct po)" "poQuantity po = Some q" "0 < q"
    "objGet productMap (toStringVal (poProduct po)) = Some u" "u \<noteq> 0"
    "truthy (poDate po)" "getWeekNumber (poDate po) = Some wk"
  shows "purchaseStep productMap poByWeek po = addTo poByWeek wk (of_int q / of_int u)"
proof -
  have ne: "wk \<noteq> []" using assms(7) by (rule getWeekNumber_not_empty)
  show ?thesis using assms ne by (simp add: purchaseStep_def Let_def)
qed

text \<open>Each step of a loop adds the cases of its record to the total of the week, and
  for sales to the total of the store and week; so a total is the sum of the cases of
  the records.\<close>

lemma salesStep_week_total:
  "numOr0 (objGet (salesByWeek (salesStep pm acc order)) wk)
     = numOr0 (objGet (salesByWeek acc) wk) + salesRecordCases pm wk order"
  by (auto simp: salesStep_def salesRecordCases_def Let_def objGet_addTo numOr0_def
        dest: getWeekNumber_not_empty split: option.splits)

lemma salesStep_store_total:
  "storeWeekCases (salesByStoreAndWeek (salesStep pm acc order)) st wk
     = storeWeekCases (salesByStoreAndWeek acc) st wk
       + (if toStringVal (orderCustomer order) = st then salesRecordCases pm wk order else 0)"
  by (auto simp: salesStep_def salesRecordCases_def Let_def objGet_addTo objGet_objSet
        objGet_Nil storeWeekCases_def numOr0_def
        dest: getWeekNumber_not_empty split: option.splits)

lemma purchaseStep_week_total:
  "numOr0 (objGet (purchaseStep pm b po) wk)
     = numOr0 (objGet b wk) + purchaseRecordCases pm wk po"
  by (auto simp: purchaseStep_def purchaseRecordCases_def Let_def objGet_addTo numOr0_def
        dest: getWeekNumber_not_empty split: option.splits)

lemma foldl_salesStep_week_total:
  "numOr0 (objGet (salesByWeek (foldl (salesStep pm) acc orders)) wk)
     = numOr0 (objGet (salesByWeek acc) wk) + sum_list (map (salesRecordCases pm wk) orders)"
  by (induction orders arbitrary: acc) (simp_all add: salesStep_week_total)

lemma foldl_salesStep_store_total:
  "storeWeekCases (salesByStoreAndWeek (foldl (salesStep pm) acc orders)) st wk
     = storeWeekCases (salesByStoreAndWeek acc) st wk
       + sum_list (map (\<lambda>order. if toStringVal (orderCustomer order) = st
                                  then salesRecordCases pm wk order else 0) orders)"
  by (induction orders arbitrary: acc) (simp_all add: salesStep_store_total)

lemma foldl_purchaseStep_week_total:
  "numOr0 (objGet (foldl (purchaseStep pm) b pos) wk)
     = numOr0 (objGet b wk) + sum_list (map (purchaseRecordCases pm wk) pos)"
  by (induction pos arbitrary: b) (simp_all add: purchaseStep_week_total)


lemma accepted_salesRecordCases:
  assumes "truthy (orderProduct order)" "orderQuantity order = Some q" "0 < q"
    "objGet productMap (toStringVal (orderProduct order)) = Some u" "u \<noteq> 0"
    "truthy (orderDeliveryDate order)" "getWeekNumber (orderDeliveryDate order) = Some wk"
  shows "salesRecordCases productMap other order = (if other = wk then of_int q / of_int u else 0)"
  using assms by (simp add: salesRecordCases_def)

lemma accepted_purchaseRecordCases:
  assumes "truthy (poProduct po)" "poQuantity po = Some q" "0 < q"
    "objGet productMap (toStringVal (poProduct po)) = Some u" "u \<noteq> 0"
    "truthy (poDate po)" "getWeekNumber (poDate po) = Some wk"
  shows "purchaseRecordCases productMap other po = (if other = wk then of_int q / of_int u else 0)"
  using assms by (simp add: purchaseRecordCases_def)

lemma processSalesData_week_total:
  "numOr0 (objGet (salesByWeek (processSalesData orders productMap)) wk)
     = sum_list (map (salesRecordCases productMap wk) orders)"
  unfolding processSalesData_def foldl_salesStep_week_total
  by (simp add: objGet_Nil numOr0_def)

lemma processSalesData_store_total:
  "storeWeekCases (salesByStoreAndWeek (processSalesData orders productMap)) st wk
     = sum_list (map (\<lambda>order. if toStringVal (orderCustomer order) = st
                                then salesRecordCases productMap wk order else 0) orders)"
  unfolding processSalesData_def foldl_salesStep_store_total
  by (simp add: objGet_Nil storeWeekCases_def)

lemma processPurchaseData_week_total:
  "numOr0 (objGet (processPurchaseData pos productMap) wk)
     = sum_list (map (purchaseRecordCases productMap wk) pos)"
  unfolding processPurchaseData_def foldl_purchaseStep_week_total
  by (simp add: objGet_Nil numOr0_def)

theorem week_totals_are_sums_of_record_cases:
  "numOr0 (objGet (salesByWeek (processSalesData orders productMap)) wk)
     = sum_list (map (salesRecordCases productMap wk) orders)
   \<and> storeWeekCases (salesByStoreAndWeek (processSalesData orders productMap)) st wk
     = sum_list (map (\<lambda>order. if toStringVal (orderCustomer order) = st
                                then salesRecordCases productMap wk order else 0) orders)
   \<and> numOr0 (objGet (processPurchaseData pos productMap) wk)
     = sum_list (map (purchaseRecordCases productMap wk) pos)"
  using processSalesData_week_total processSalesData_store_total processPurchaseData_week_total
  by blast

text \<open>
  Claim C6, as amended: for a sales or purchase record that passes the checks of
  \<open>processSalesData\<close> or \<open>processPurchaseData\<close> (the product is in the product map,
  \<open>parseInt\<close> reads an integer \<open>q\<close> above 0 from the quantity field, the date gives a
  week), the cases that the record contributes to its week are exactly \<open>q\<close> divided by
  the units per case, as a fraction, with no rounding to whole cases. Right after the
  record the bucket of its week holds its old value, or 0 when the week is new, plus
  that quotient; and wherever the record stands among the others, the total of its week
  is larger by that quotient than without it, the totals of the other weeks are the
  same, and for sales the total of its store in that week is larger by the same
  quotient. The quantity is the integer that \<open>parseInt\<close> reads, not the value of the
  field. The sums are those of rational numbers; the source computes the quotient and
  the sums in doubles, so that there each division and addition rounds to the nearest
  double.
\<close>

theorem C6_cases_are_quantity_over_units:
  "(truthy (orderProduct order) \<and> orderQuantity order = Some q \<and> 0 < q
      \<and> objGet productMap (toStringVal (orderProduct order)) = Some u \<and> 0 < u
      \<and> truthy (orderDeliveryDate order) \<and> getWeekNumber (orderDeliveryDate order) = Some wk
    \<longrightarrow> objGet (salesByWeek (processSalesData (earlier @ [order]) productMap)) wk
          = Some (numOr0 (objGet (salesByWeek (processSalesData earlier productMap)) wk)
                  + of_int q / of_int u)
        \<and> numOr0 (objGet (salesByWeek
                    (processSalesData (earlier @ order # later) productMap)) wk)
          = numOr0 (objGet (salesByWeek (processSalesData (earlier @ later) productMap)) wk)
            + of_int q / of_int u
        \<and> (other \<noteq> wk \<longrightarrow>
             numOr0 (objGet (salesByWeek
                    (processSalesData (earlier @ order # later) productMap)) other)
             = numOr0 (objGet (salesByWeek
                    (processSalesData (earlier @ later) productMap)) other))
        \<and> storeWeekCases
             (salesByStoreAndWeek (processSalesData (earlier @ order # later) productMap))
             (toStringVal (orderCustomer order)) wk
          = storeWeekCases
             (salesByStoreAndWeek (processSalesData (earlier @ later) productMap))
             (toStringVal (orderCustomer order)) wk
            + of_int q / of_int u)
   \<and> (truthy (poProduct po) \<and> poQuantity po = Some q' \<and> 0 < q'
      \<and> objGet productMap (toStringVal (poProduct po)) = Some u' \<and> 0 < u'
      \<and> truthy (poDate po) \<and> getWeekNumber (poDate po) = Some wk'
    \<longrightarrow> objGet (processPurchaseData (earlier' @ [po]) productMap) wk'
          = Some (numOr0 (objGet (processPurchaseData earlier' productMap) wk')
                  + of_int q' / of_int u')
        \<and> numOr0 (objGet (processPurchaseData (earlier' @ po # later') productMap) wk')
          = numOr0 (objGet (processPurchaseData (earlier' @ later') productMap) wk')
            + of_int q' / of_int u'
        \<and> (other \<noteq> wk' \<longrightarrow>
             numOr0 (objGet (processPurchaseData (earlier' @ po # later') productMap) other)
             = numOr0 (objGet (processPurchaseData (earlier' @ later') productMap) other)))"
proof (intro conjI impI)
  assume h: "truthy (orderProduct order) \<and> orderQuantity order = Some q \<and> 0 < q
      \<and> objGet productMap (toStringVal (orderProduct order)) = Some u \<and> 0 < u
      \<and> truthy (orderDeliveryDate order) \<and> getWeekNumber (orderDeliveryDate order) = Some wk"
  then have u: "u \<noteq> 0" by simp
  have c: "salesRecordCases productMap k order = (if k = wk then of_int q / of_int u else 0)"
    for k
    using h u by (simp add: accepted_salesRecordCases)
  have snoc: "processSalesData (earlier @ [order]) productMap
                = salesStep productMap (processSalesData earlier productMap) order"
    by (simp add: processSalesData_def)
  from h u show "objGet (salesByWeek (processSalesData (earlier @ [order]) productMap)) wk
          = Some (numOr0 (objGet (salesByWeek (processSalesData earlier productMap)) wk)
                  + of_int q / of_int u)"
    unfolding snoc by (simp add: salesStep_accepted(1) objGet_addTo)
  show "numOr0 (objGet (salesByWeek
                    (processSalesData (earlier @ order # later) productMap)) wk)
          = numOr0 (objGet (salesByWeek (processSalesData (earlier @ later) productMap)) wk)
            + of_int q / of_int u"
    by (simp add: processSalesData_week_total c)
  show "storeWeekCases
             (salesByStoreAndWeek (processSalesData (earlier @ order # later) productMap))
             (toStringVal (orderCustomer order)) wk
          = storeWeekCases
             (salesByStoreAndWeek (processSalesData (earlier @ later) productMap))
             (toStringVal (orderCustomer order)) wk
            + of_int q / of_int u"
    by (simp add: processSalesData_store_total c)
  assume "other \<noteq> wk"
  then show "numOr0 (objGet (salesByWeek
                    (processSalesData (earlier @ order # later) productMap)) other)
             = numOr0 (objGet (salesByWeek
                    (processSalesData (earlier @ later) productMap)) other)"
    by (simp add: processSalesData_week_total c)
next
  assume h: "truthy (poProduct po) \<and> poQuantity po = Some q' \<and> 0 < q'
      \<and> objGet productMap (toStringVal (poProduct po)) = Some u' \<and> 0 < u'
      \<and> truthy (poDate po) \<and> getWeekNumber (poDate po) = Some wk'"
  then have u: "u' \<noteq> 0" by simp
  have c: "purchaseRecordCases productMap k po = (if k = wk' then of_int q' / of_int u' else 0)"
    for k
    using h u by (simp add: accepted_purchaseRecordCases)
  have snoc: "processPurchaseData (earlier' @ [po]) productMap
                = purchaseStep productMap (processPurchaseData earlier' productMap) po"
    by (simp add: processPurchaseData_def)
  from h u show "objGet (processPurchaseData (earlier' @ [po]) productMap) wk'
          = Some (numOr0 (objGet (processPurchaseData earlier' productMap) wk')
                  + of_int q' / of_int u')"
    unfolding snoc by (simp add: purchaseStep_accepted objGet_addTo)
  show "numOr0 (objGet (processPurchaseData (earlier' @ po # later') productMap) wk')
          = numOr0 (objGet (processPurchaseData (earlier' @ later') productMap) wk')
            + of_int q' / of_int u'"
    by (simp add: processPurchaseData_week_total c)
  assume "other \<noteq> wk'"
  then show "numOr0 (objGet (processPurchaseData (earlier' @ po # later') productMap) other)
             = numOr0 (objGet (processPurchaseData (earlier' @ later') productMap) other)"
    by (simp add: processPurchaseData_week_total c)
qed

text \<open>The example of the claim: 36 units of a product with 12 units per case are exactly
  3 cases. With a later order of 6 units in the same week the total is 3.5 where it is
  0.5 without the record. A purchase of 30 units adds 2.5 cases to a bucket that holds
  0.5.\<close>

theorem C6_witness:
  "objGet (salesByWeek (processSalesData
      [[(''Product'', Str ''Widget''), (''Quantity'', Num 36), (''Customer'', Str ''Acme''),
        (''Delivery Date'', Str ''2024-01-08'')]] [(''Widget'', 12)])) ''2024-W02'' = Some 3
   \<and> numOr0 (objGet (salesByWeek (processSalesData
      [[(''Product'', Str ''Widget''), (''Quantity'', Num 36), (''Customer'', Str ''Acme''),
        (''Delivery Date'', Str ''2024-01-08'')],
       [(''Product'', Str ''Widget''), (''Quantity'', Str ''6''), (''Customer'', Str ''Acme''),
        (''Delivery Date'', Str ''2024-01-10'')]] [(''Widget'', 12)])) ''2024-W02'') = 7 / 2
   \<and> numOr0 (objGet (salesByWeek (processSalesData
      [[(''Product'', Str ''Widget''), (''Quantity'', Num 36), (''Customer'', Str ''Acme''),
        (''Delivery Date'', Str ''2024-01-08'')],
       [(''Product'', Str ''Widget''), (''Quantity'', Str ''6''), (''Customer'', Str ''Acme''),
        (''Delivery Date'', Str ''2024-01-10'')]] [(''Widget'', 12)])) ''2024-W01'') = 0
   \<and> storeWeekCases (salesByStoreAndWeek (processSalesData
      [[(''Product'', Str ''Widget''), (''Quantity'', Num 36), (''Customer'', Str ''Acme''),
        (''Delivery Date'', Str ''2024-01-08'')],
       [(''Product'', Str ''Widget''), (''Quantity'', Str ''6''), (''Customer'', Str ''Acme''),
        (''Delivery Date'', Str ''2024-01-10'')]] [(''Widget'', 12)])) ''Acme'' ''2024-W02''
     = 7 / 2
   \<and> objGet (processPurchaseData
      [[(''Product Name'', Str ''Widget''), (''Purchase Quantity'', Num 6),
        (''Purchase Order Date'', Str ''2024-01-09'')],
       [(''Product Name'', Str ''Widget''), (''Purchase Quantity'', Str ''30''),
        (''Purchase Order Date'', Str ''2024-01-10'')]] [(''Widget'', 12)]) ''2024-W02''
     = Some 3
   \<and> numOr0 (objGet (processPurchaseData
      [[(''Product Name'', Str ''Widget''), (''Purchase Quantity'', Num 6),
        (''Purchase Order Date'', Str ''2024-01-09'')],
       [(''Product Name'', Str ''Widget''), (''Purchase Quantity'', Str ''30''),
        (''Purchase Order Date'', Str ''2024-01-10'')]] [(''Widget'', 12)]) ''2024-W01'') = 0"
proof -
  let ?order = "[(''Product'', Str ''Widget''), (''Quantity'', Num 36), (''Customer'', Str ''Acme''),
        (''Delivery Date'', Str ''2024-01-08'')]"
  let ?next = "[(''Product'', Str ''Widget''), (''Quantity'', Str ''6''), (''Customer'', Str ''Acme''),
        (''Delivery Date'', Str ''2024-01-10'')]"
  let ?first = "[(''Product Name'', Str ''Widget''), (''Purchase Quantity'', Num 6),
        (''Purchase Order Date'', Str ''2024-01-09'')]"
  let ?po = "[(''Product Name'', Str ''Widget''), (''Purchase Quantity'', Str ''30''),
        (''Purchase Order Date'', Str ''2024-01-10'')]"
  let ?pm = "[(''Widget'', 12 :: int)]"
  have s: "truthy (orderProduct ?order) \<and> orderQuantity ?order = Some 36 \<and> (0::int) < 36
      \<and> objGet ?pm (toStringVal (orderProduct ?order)) = Some (12::int)
      \<and> (0::int) < 12
      \<and> truthy (orderDeliveryDate ?order)
      \<and> getWeekNumber (orderDeliveryDate ?order) = Some ''2024-W02''"
    by code_simp
  have p: "truthy (poProduct ?po) \<and> poQuantity ?po = Some 30 \<and> (0::int) < 30
      \<and> objGet ?pm (toStringVal (poProduct ?po)) = Some (12::int)
      \<and> (0::int) < 12
      \<and> truthy (poDate ?po) \<and> getWeekNumber (poDate ?po) = Some ''2024-W02''"
    by code_simp
  have c: "toStringVal (orderCustomer ?order) = ''Acme''" by code_simp
  have e1: "numOr0 (objGet (salesByWeek (processSalesData [] ?pm)) ''2024-W02'') = 0"
    by code_simp
  have e2: "numOr0 (objGet (salesByWeek (processSalesData [?next] ?pm)) ''2024-W02'') = 1 / 2"
    by code_simp
  have e3: "numOr0 (objGet (salesByWeek (processSalesData [?next] ?pm)) ''2024-W01'') = 0"
    by code_simp
  have e4: "storeWeekCases (salesByStoreAndWeek (processSalesData [?next] ?pm))
              ''Acme'' ''2024-W02'' = 1 / 2"
    by code_simp
  have e5: "numOr0 (objGet (processPurchaseData [?first] ?pm) ''2024-W02'') = 1 / 2"
    by code_simp
  have e6: "numOr0 (objGet (processPurchaseData [?first] ?pm) ''2024-W01'') = 0"
    by code_simp
  have n: "''2024-W01'' \<noteq> ''2024-W02''" by simp
  show ?thesis
    using C6_cases_are_quantity_over_units
      [where order = ?order and q = 36 and productMap = ?pm and u = 12
         and wk = "''2024-W02''" and earlier = "[]" and later = "[?next]"
         and po = ?po and q' = 30 and u' = 12 and wk' = "''2024-W02''"
         and earlier' = "[?first]" and later' = "[]" and other = "''2024-W01''"]
      s p c e1 e2 e3 e4 e5 e6 n
    by simp
qed

text \<open>The claim as it was stated divides the quantity of the record, a number above 0.
  The loops divide what \<open>parseInt\<close> reads from it: 18.5 units of a product with 12
  units per case add 18 / 12 cases, not 18.5 / 12, and a quantity of 0.5 reads as 0, so
  that the record is skipped and contributes nothing.\<close>

theorem C6_fractional_quantity_counterexample:
  "objGet (salesByWeek (processSalesData
      [[(''Product'', Str ''Widget''), (''Quantity'', Num (37 / 2)), (''Customer'', Str ''Acme''),
        (''Delivery Date'', Str ''2024-01-08'')]] [(''Widget'', 12)])) ''2024-W02''
     = Some (18 / 12)
   \<and> (18 / 12 :: rat) \<noteq> (37 / 2) / 12
   \<and> processSalesData
      [[(''Product'', Str ''Widget''), (''Quantity'', Num (1 / 2)), (''Customer'', Str ''Acme''),
        (''Delivery Date'', Str ''2024-01-08'')]] [(''Widget'', 12)]
     = \<lparr> salesByWeek = [], salesByStoreAndWeek = [] \<rparr>
   \<and> objGet (processPurchaseData
      [[(''Product Name'', Str ''Widget''), (''Purchase Quantity'', Str ''18.5''),
        (''Purchase Order Date'', Str ''2024-01-08'')]] [(''Widget'', 12)]) ''2024-W02''
     = Some (18 / 12)
   \<and> processPurchaseData
      [[(''Product Name'', Str ''Widget''), (''Purchase Quantity'', Num (1 / 2)),
        (''Purchase Order Date'', Str ''2024-01-08'')]] [(''Widget'', 12)] = []"
  by code_simp

text \<open>\<open>parseInt\<close> reads the printed form of a number, which below \<open>10^-6\<close> and from
  \<open>10^21\<close> on is exponent notation: a quantity of 0.0000005 prints as \<open>5e-7\<close> and reads
  as 5.\<close>

lemma parseInt_reads_the_printed_number:
  "toStringVal (Num (5 / 10 ^ 7)) = ''5e-7'' \<and> parseInt (Num (5 / 10 ^ 7)) = Some 5
   \<and> toStringVal (Num (10 ^ 21)) = ''1e+21'' \<and> parseInt (Num (10 ^ 21)) = Some 1
   \<and> toStringVal (Num (37 / 2)) = ''18.5'' \<and> parseInt (Num (37 / 2)) = Some 18
   \<and> toStringVal (Num (1 / 10 ^ 6)) = ''0.000001'' \<and> parseInt (Num (1 / 2)) = Some 0"
  by code_simp

text \<open>The sales loop of the second file does not parse the quantity: it divides the value
  of the field, and 18.5 units add 18.5 / 12 cases there.\<close>

lemma second_file_divides_the_field_value:
  "map_option (\<lambda>t. objGet (salesByWeek t) ''2024-W02'')
     (processSales2 [(''Widget'', Num 12)] \<lparr> salesByWeek = [], salesByStoreAndWeek = [] \<rparr>
        [[(''Product'', Str ''Widget''), (''Quantity'', Num (37 / 2)),
          (''Customer'', Str ''Acme''), (''Delivery Date'', Str ''2024-01-08'')]])
   = Some (Some (37 / 24))"
  by code_simp

section \<open>Orders without a store name\<close>

lemma orderCustomer_unknown:
  "\<not> truthy (field order ''Customer'') \<Longrightarrow> \<not> truthy (field order ''Store'')
   \<Longrightarrow> \<not> truthy (field order ''Client'') \<Longrightarrow> orderCustomer order = Str ''Unknown''"
  by (simp add: orderCustomer_def orElse_def)

text \<open>
  Claim C10: a sales row that passes the product, quantity and date checks and has none of
  the fields \<open>Customer\<close>, \<open>Store\<close>, \<open>Client\<close> (each missing, \<open>null\<close>, empty or 0) is
  not skipped. Its cases, which are above 0, go to the week bucket and to the bucket of
  the week under the store name \<open>Unknown\<close>, and \<open>Unknown\<close> is among the keys from which
  the store totals and the ranking are built.
\<close>

theorem C10_missing_store_goes_to_Unknown:
  assumes "truthy (orderProduct order)" "orderQuantity order = Some q" "0 < q"
    "objGet productMap (toStringVal (orderProduct order)) = Some u" "0 < u"
    "truthy (orderDeliveryDate order)" "getWeekNumber (orderDeliveryDate order) = Some wk"
    "\<not> truthy (field order ''Customer'')" "\<not> truthy (field order ''Store'')"
    "\<not> truthy (field order ''Client'')"
  shows "storeWeekCases (salesByStoreAndWeek (salesStep productMap acc order)) ''Unknown'' wk
           = storeWeekCases (salesByStoreAndWeek acc) ''Unknown'' wk + of_int q / of_int u
         \<and> 0 < of_int q / (of_int u :: rat)
         \<and> ''Unknown'' \<in> set (objectKeys (salesByStoreAndWeek (salesStep productMap acc order)))
         \<and> objGet (salesByWeek (salesStep productMap acc order)) wk
           = Some (numOr0 (objGet (salesByWeek acc) wk) + of_int q / of_int u)"
proof -
  have c: "toStringVal (orderCustomer order) = ''Unknown''"
    using assms(8-10) by (simp add: orderCustomer_unknown)
  have u: "u \<noteq> 0" using assms(5) by simp
  have ne: "wk \<noteq> []" using assms(7) by (rule getWeekNumber_not_empty)
  have k: "''Unknown'' \<in> fst ` set (salesByStoreAndWeek (salesStep productMap acc order))"
    using assms(1-4,6,7) u ne c
    by (simp add: salesStep_def Let_def keyset_objSet)
  have nidx: "\<not> isArrayIndex ''Unknown''" by code_simp
  have k': "''Unknown'' \<in> set (objectKeys (salesByStoreAndWeek (salesStep productMap acc order)))"
    using k nidx by (auto simp: objectKeys_def Let_def)
  show ?thesis
    using salesStep_accepted[OF assms(1-4) u assms(6,7), of acc] c k' assms(3,5)
    by (simp add: objGet_addTo)
qed

text \<open>An order of 5 units without any store field, for a product with 10 units per case:
  half a case under \<open>Unknown\<close>, which then heads the ranking of \<open>calculateMetrics\<close>.\<close>

theorem C10_witness:
  "storeWeekCases (salesByStoreAndWeek (salesStep [(''Widget'', 10)]
        \<lparr> salesByWeek = [], salesByStoreAndWeek = [] \<rparr>
        [(''Product'', Str ''Widget''), (''Quantity'', Num 5), (''Customer'', Str []),
         (''Delivery Date'', Str ''2024-01-09'')])) ''Unknown'' ''2024-W02'' = 1 / 2
   \<and> ''Unknown'' \<in> set (objectKeys (salesByStoreAndWeek (salesStep [(''Widget'', 10)]
        \<lparr> salesByWeek = [], salesByStoreAndWeek = [] \<rparr>
        [(''Product'', Str ''Widget''), (''Quantity'', Num 5), (''Customer'', Str []),
         (''Delivery Date'', Str ''2024-01-09'')])))
   \<and> map_sum id topStoresByWeek (calculateMetrics
        [[(''Product Name'', Str ''Widget''), (''Units Per Case'', Num 10)]]
        [[(''Product'', Str ''Widget''), (''Quantity'', Num 5), (''Customer'', Str []),
          (''Delivery Date'', Str ''2024-01-09'')]] [] [])
      = Inr [\<lparr> store = ''Unknown'', total = 1 / 2 \<rparr>]"
proof -
  let ?order = "[(''Product'', Str ''Widget''), (''Quantity'', Num 5), (''Customer'', Str []),
         (''Delivery Date'', Str ''2024-01-09'')]"
  let ?acc = "\<lparr> salesByWeek = [], salesByStoreAndWeek = [] \<rparr>"
  have h1: "truthy (orderProduct ?order)" by code_simp
  have h2: "orderQuantity ?order = Some 5" by code_simp
  have h3: "(0::int) < 5" by simp
  have h4: "objGet [(''Widget'', 10)] (toStringVal (orderProduct ?order)) = Some (10::int)"
    by code_simp
  have h5: "(0::int) < 10" by simp
  have h6: "truthy (orderDeliveryDate ?order)" by code_simp
  have h7: "getWeekNumber (orderDeliveryDate ?order) = Some ''2024-W02''" by code_simp
  have h8: "\<not> truthy (field ?order ''Customer'')" by code_simp
  have h9: "\<not> truthy (field ?order ''Store'')" by code_simp
  have h10: "\<not> truthy (field ?order ''Client'')" by code_simp
  have e: "storeWeekCases (salesByStoreAndWeek ?acc) ''Unknown'' ''2024-W02''
             + of_int 5 / of_int 10 = 1 / 2"
    by code_simp
  have m: "map_sum id topStoresByWeek (calculateMetrics
        [[(''Product Name'', Str ''Widget''), (''Units Per Case'', Num 10)]]
        [?order] [] [])
      = Inr [\<lparr> store = ''Unknown'', total = 1 / 2 \<rparr>]"
    by code_simp
  show ?thesis
    using C10_missing_store_goes_to_Unknown[OF h1 h2 h3 h4 h5 h6 h7 h8 h9 h10, of ?acc] e m
    by simp
qed

lemma getWeekNumber2_not_Unknown: "getWeekNumber2 v \<noteq> ''Unknown''"
proof
  assume "getWeekNumber2 v = ''Unknown''"
  then have "set (getWeekNumber2 v) = set ''Unknown''" by simp
  moreover have "CHR ''-'' \<in> set (getWeekNumber2 v)"
    by (simp add: getWeekNumber2_def Let_def)
  ultimately show False by simp
qed

lemma getWeekNumber2_not_empty: "getWeekNumber2 v \<noteq> []"
  by (simp add: getWeekNumber2_def Let_def)

text \<open>The sales loop of the second file reads the store from \<open>Customer\<close> alone. A row
  that it does not skip and that has no truthy \<open>Customer\<close> adds its cases under
  \<open>Unknown\<close> as well.\<close>

theorem second_file_missing_customer_goes_to_Unknown:
  assumes "truthy (field order ''Product'')"
    "objGet productMap (toStringVal (field order ''Product'')) = Some unitsPerCase"
    "truthy unitsPerCase"
    "divide (orElse (field order ''Quantity'') (Num 0)) unitsPerCase = Some c"
    "truthy (field order ''Delivery Date'')"
    "\<not> truthy (field order ''Customer'')"
  shows "\<exists>acc'. salesStep2 productMap acc order = Some acc'
           \<and> storeWeekCases (salesByStoreAndWeek acc') ''Unknown''
                (getWeekNumber2 (field order ''Delivery Date''))
              = storeWeekCases (salesByStoreAndWeek acc) ''Unknown''
                  (getWeekNumber2 (field order ''Delivery Date'')) + c"
  using assms getWeekNumber2_not_Unknown[of "field order ''Delivery Date''"]
  by (simp add: salesStep2_def Let_def orElse_def storeWeekCases_def objGet_objSet
        objGet_addTo objGet_Nil numOr0_def split: option.splits)

section \<open>The weekly rows\<close>

lemma objGet_in_set: "objGet obj k = Some v \<Longrightarrow> (k, v) \<in> set obj"
  by (simp add: objGet_def map_of_SomeD)

lemma objectValues_subset: "v \<in> set (objectValues obj) \<Longrightarrow> \<exists>k. (k, v) \<in> set obj"
  by (auto simp: objectValues_def dest: objGet_in_set objGet_in_set[OF sym] split: option.splits)

lemma set_objSet_subset: "set (objSet k v obj) \<subseteq> insert (k, v) (set obj)"
  by (induction obj) auto

lemma casesPerLaborHourByWeek_values_aux:
  "(\<And>k v. (k, v) \<in> set acc \<Longrightarrow> v = weekMetricsOf s p l k) \<Longrightarrow>
   (k, v) \<in> set (foldl (\<lambda>acc wk. objSet wk (weekMetricsOf s p l wk) acc) acc ws)
   \<Longrightarrow> v = weekMetricsOf s p l k"
proof (induction ws arbitrary: acc)
  case Nil
  then show ?case by simp
next
  case (Cons w ws)
  show ?case
  proof (rule Cons.IH[of "objSet w (weekMetricsOf s p l w) acc"])
    fix k' v' assume "(k', v') \<in> set (objSet w (weekMetricsOf s p l w) acc)"
    then show "v' = weekMetricsOf s p l k'"
      using set_objSet_subset[of w "weekMetricsOf s p l w" acc] Cons.prems(1) by auto
  next
    show "(k, v) \<in> set (foldl (\<lambda>acc wk. objSet wk (weekMetricsOf s p l wk) acc)
                      (objSet w (weekMetricsOf s p l w) acc) ws)"
      using Cons.prems(2) by simp
  qed
qed

lemma casesPerLaborHourByWeek_values:
  "(k, v) \<in> set (casesPerLaborHourByWeekOf s p l ws) \<Longrightarrow> v = weekMetricsOf s p l k"
  unfolding casesPerLaborHourByWeekOf_def
  by (rule casesPerLaborHourByWeek_values_aux[of "[]"]) auto

lemma casesPerLaborHourByWeek_get_aux:
  "wk \<in> set ws \<or> objGet acc wk = Some (weekMetricsOf s p l wk) \<Longrightarrow>
   objGet (foldl (\<lambda>acc wk. objSet wk (weekMetricsOf s p l wk) acc) acc ws) wk
     = Some (weekMetricsOf s p l wk)"
  by (induction ws arbitrary: acc) (auto simp: objGet_objSet)

lemma casesPerLaborHourByWeek_get:
  "wk \<in> set ws \<Longrightarrow>
   objGet (casesPerLaborHourByWeekOf s p l ws) wk = Some (weekMetricsOf s p l wk)"
  unfolding casesPerLaborHourByWeekOf_def
  by (rule casesPerLaborHourByWeek_get_aux) simp

text \<open>The labor hours of a week are never below 0: every clock row that is counted adds
  hours above 0.\<close>

lemma numOr0_nonneg: "positiveBuckets b \<Longrightarrow> 0 \<le> numOr0 (objGet b k)"
  by (auto simp: positiveBuckets_def numOr0_def dest!: objGet_in_set split: option.splits)

lemma positiveBuckets_objSet:
  "positiveBuckets b \<Longrightarrow> 0 < v \<Longrightarrow> positiveBuckets (objSet k v b)"
  using set_objSet_subset[of k v b] by (auto simp: positiveBuckets_def)

lemma positiveBuckets_addTo:
  assumes "positiveBuckets b" "0 < c" shows "positiveBuckets (addTo b k c)"
proof (cases "numOr0 (objGet b k) = 0")
  case True
  have "set (objSet k (0 + c) (objSet k 0 b)) \<subseteq> insert (k, c) (set (objSet k 0 b))"
    using set_objSet_subset[of k "0 + c" "objSet k 0 b"] by simp
  moreover have "objSet k (0 + c) (objSet k 0 b) = objSet k c b"
    by (induction b) auto
  ultimately show ?thesis using True assms
    by (simp add: addTo_def Let_def objGet_objSet numOr0_def positiveBuckets_objSet)
next
  case False
  then show ?thesis using assms numOr0_nonneg[OF assms(1), of k]
    by (simp add: addTo_def Let_def positiveBuckets_objSet)
qed

lemma positiveBuckets_clockStep: "positiveBuckets b \<Longrightarrow> positiveBuckets (clockStep b clock)"
  by (auto simp: clockStep_def Let_def positiveBuckets_addTo split: option.splits)

lemma positiveBuckets_foldl_clock:
  "positiveBuckets b \<Longrightarrow> positiveBuckets (foldl clockStep b clocks)"
  by (induction clocks arbitrary: b) (simp_all add: positiveBuckets_clockStep)

lemma positiveBuckets_processClockData: "positiveBuckets (processClockData clocks)"
  unfolding processClockData_def
  by (rule positiveBuckets_foldl_clock) (simp add: positiveBuckets_def)

lemma weekMetricsOf_efficiency:
  "totalCasesPerLaborHour (weekMetricsOf s p l wk)
     = (if 0 < laborHours (weekMetricsOf s p l wk)
        then Finite ((receivedCases (weekMetricsOf s p l wk)
                        + shippedCases (weekMetricsOf s p l wk))
                     / laborHours (weekMetricsOf s p l wk))
        else Finite 0)"
  by (simp add: weekMetricsOf_def Let_def numDivide_def)

lemma weekMetricsOf_laborHours: "laborHours (weekMetricsOf s p l wk) = numOr0 (objGet l wk)"
  by (simp add: weekMetricsOf_def Let_def)

lemma orZero_Finite: "orZero (Finite v) = Finite v"
  by (simp add: orZero_def)

text \<open>What the guard of line 537 keeps out of the result: with no labor hours the
  quotient of the claim's example, 5 received cases, is \<open>Infinity\<close>, and that of a week
  without cases is \<open>NaN\<close>. The chart row would keep the \<open>Infinity\<close>.\<close>

lemma division_by_zero_hours_is_not_finite:
  "numDivide (5 + 0) 0 = PosInfinity \<and> numDivide (0 + 0) 0 = NaN
   \<and> orZero (numDivide (5 + 0) 0) = PosInfinity \<and> numDivide (0 + 10) 5 = Finite 2"
  by code_simp

text \<open>
  Claim C9: in every weekly row of the result the efficiency is a finite number, never
  \<open>Infinity\<close> or \<open>NaN\<close>: it is (received + shipped) cases divided by the labor hours
  when the labor hours are above 0, and 0 when they are 0. The labor hours are never
  below 0, so these are all the cases, and the division is evaluated only with a divisor
  above 0. This holds for the rows of \<open>casesPerLaborHour\<close> and for the chart rows of
  \<open>salesAndPOByWeek\<close>.
\<close>

theorem C9_efficiency_guards_zero_hours:
  assumes "calculateMetrics products salesOrders purchaseOrders clocks = Inr m"
  shows "(\<forall>w \<in> set (casesPerLaborHour m).
            0 \<le> laborHours w
            \<and> (\<exists>v. totalCasesPerLaborHour w = Finite v)
            \<and> (0 < laborHours w \<longrightarrow>
                 totalCasesPerLaborHour w
                   = Finite ((receivedCases w + shippedCases w) / laborHours w))
            \<and> (laborHours w = 0 \<longrightarrow> totalCasesPerLaborHour w = Finite 0))
       \<and> (\<forall>r \<in> set (salesAndPOByWeek m).
            0 \<le> rowLaborHours r
            \<and> (\<exists>v. rowTotalCasesPerLaborHour r = Finite v)
            \<and> (0 < rowLaborHours r \<longrightarrow>
                 rowTotalCasesPerLaborHour r
                   = Finite ((received r + shipped r) / rowLaborHours r))
            \<and> (rowLaborHours r = 0 \<longrightarrow> rowTotalCasesPerLaborHour r = Finite 0))"
proof -
  define pm where "pm = processProductData products"
  define s where "s = salesByWeek (processSalesData salesOrders pm)"
  define p where "p = processPurchaseData purchaseOrders pm"
  define l where "l = processClockData clocks"
  define ws where "ws = allWeeksOf s p l"
  from assms have m1: "casesPerLaborHour m = objectValues (casesPerLaborHourByWeekOf s p l ws)"
    and m2: "salesAndPOByWeek m
               = formattedWeeklyDataOf s p l (casesPerLaborHourByWeekOf s p l ws) ws"
    by (auto simp: calculateMetrics_def Let_def pm_def s_def p_def l_def ws_def
          split: if_splits)
  have pos: "positiveBuckets l" unfolding l_def by (rule positiveBuckets_processClockData)
  have a: "\<forall>w \<in> set (casesPerLaborHour m).
            0 \<le> laborHours w
            \<and> (\<exists>v. totalCasesPerLaborHour w = Finite v)
            \<and> (0 < laborHours w \<longrightarrow>
                 totalCasesPerLaborHour w
                   = Finite ((receivedCases w + shippedCases w) / laborHours w))
            \<and> (laborHours w = 0 \<longrightarrow> totalCasesPerLaborHour w = Finite 0)"
  proof
    fix w assume "w \<in> set (casesPerLaborHour m)"
    then obtain k where "(k, w) \<in> set (casesPerLaborHourByWeekOf s p l ws)"
      unfolding m1 by (auto dest: objectValues_subset)
    then have w: "w = weekMetricsOf s p l k" by (rule casesPerLaborHourByWeek_values)
    show "0 \<le> laborHours w
            \<and> (\<exists>v. totalCasesPerLaborHour w = Finite v)
            \<and> (0 < laborHours w \<longrightarrow>
                 totalCasesPerLaborHour w
                   = Finite ((receivedCases w + shippedCases w) / laborHours w))
            \<and> (laborHours w = 0 \<longrightarrow> totalCasesPerLaborHour w = Finite 0)"
      unfolding w using weekMetricsOf_efficiency[of s p l k] numOr0_nonneg[OF pos, of k]
      by (simp add: weekMetricsOf_laborHours)
  qed
  have b: "\<forall>r \<in> set (salesAndPOByWeek m).
            0 \<le> rowLaborHours r
            \<and> (\<exists>v. rowTotalCasesPerLaborHour r = Finite v)
            \<and> (0 < rowLaborHours r \<longrightarrow>
                 rowTotalCasesPerLaborHour r
                   = Finite ((received r + shipped r) / rowLaborHours r))
            \<and> (rowLaborHours r = 0 \<longrightarrow> rowTotalCasesPerLaborHour r = Finite 0)"
  proof
    fix r assume "r \<in> set (salesAndPOByWeek m)"
    then obtain wk where wk: "wk \<in> set ws" and
      r: "r = \<lparr> rowWeek = wk, received = numOr0 (objGet p wk), shipped = numOr0 (objGet s wk),
                rowLaborHours = numOr0 (objGet l wk),
                rowTotalCasesPerLaborHour
                  = orZero (totalCasesPerLaborHour (weekMetricsOf s p l wk)) \<rparr>"
      unfolding m2 formattedWeeklyDataOf_def
      by (auto simp: casesPerLaborHourByWeek_get)
    show "0 \<le> rowLaborHours r
            \<and> (\<exists>v. rowTotalCasesPerLaborHour r = Finite v)
            \<and> (0 < rowLaborHours r \<longrightarrow>
                 rowTotalCasesPerLaborHour r
                   = Finite ((received r + shipped r) / rowLaborHours r))
            \<and> (rowLaborHours r = 0 \<longrightarrow> rowTotalCasesPerLaborHour r = Finite 0)"
      unfolding r using numOr0_nonneg[OF pos, of wk]
      by (simp add: weekMetricsOf_def Let_def numDivide_def orZero_Finite)
  qed
  from a b show ?thesis by blast
qed

text \<open>The example of the claim: a week with 5 received cases and no labor hours has
  efficiency 0, where the quotient 5 / 0 would be \<open>Infinity\<close>; a week with 10 shipped
  cases and 5 labor hours has efficiency 2.\<close>

theorem C9_witness:
  "calculateMetrics
     [[(''Product Name'', Str ''Widget''), (''Units Per Case'', Num 10)]]
     [[(''Product'', Str ''Widget''), (''Quantity'', Num 100), (''Customer'', Str ''Acme''),
       (''Delivery Date'', Str ''2024-01-08'')]]
     [[(''Product Name'', Str ''Widget''), (''Purchase Quantity'', Num 50),
       (''Purchase Order Date'', Str ''2024-01-16'')]]
     [[(''Date In'', Str ''2024-01-08''), (''Total Less Break'', Num 5)]]
   = Inr \<lparr> casesPerLaborHour =
              [\<lparr> week = ''2024-W02'', receivedCases = 0, shippedCases = 10, laborHours = 5,
                 totalCasesPerLaborHour = Finite 2 \<rparr>,
               \<lparr> week = ''2024-W03'', receivedCases = 5, shippedCases = 0, laborHours = 0,
                 totalCasesPerLaborHour = Finite 0 \<rparr>],
           salesAndPOByWeek =
              [\<lparr> rowWeek = ''2024-W02'', received = 0, shipped = 10, rowLaborHours = 5,
                 rowTotalCasesPerLaborHour = Finite 2 \<rparr>,
               \<lparr> rowWeek = ''2024-W03'', received = 5, shipped = 0, rowLaborHours = 0,
                 rowTotalCasesPerLaborHour = Finite 0 \<rparr>],
           topStoresByWeek = [\<lparr> store = ''Acme'', total = 10 \<rparr>],
           allStoreData =
              [\<lparr> entryWeek = ''2024-W02'', cases = 10, entryStore = ''Acme'' \<rparr>,
               \<lparr> entryWeek = ''2024-W03'', cases = 0, entryStore = ''Acme'' \<rparr>],
           allStores = [''Acme''], weeks = [''2024-W02'', ''2024-W03''] \<rparr>
   \<and> laborHours \<lparr> week = ''2024-W03'', receivedCases = 5, shippedCases = 0, laborHours = 0,
                  totalCasesPerLaborHour = Finite 0 \<rparr> = 0
   \<and> totalCasesPerLaborHour \<lparr> week = ''2024-W03'', receivedCases = 5, shippedCases = 0,
                  laborHours = 0, totalCasesPerLaborHour = Finite 0 \<rparr> = Finite 0
   \<and> totalCasesPerLaborHour \<lparr> week = ''2024-W02'', receivedCases = 0, shippedCases = 10,
                  laborHours = 5, totalCasesPerLaborHour = Finite 2 \<rparr> = Finite ((0 + 10) / 5)
   \<and> numDivide (5 + 0) 0 = PosInfinity"
proof -
  have h: "calculateMetrics
     [[(''Product Name'', Str ''Widget''), (''Units Per Case'', Num 10)]]
     [[(''Product'', Str ''Widget''), (''Quantity'', Num 100), (''Customer'', Str ''Acme''),
       (''Delivery Date'', Str ''2024-01-08'')]]
     [[(''Product Name'', Str ''Widget''), (''Purchase Quantity'', Num 50),
       (''Purchase Order Date'', Str ''2024-01-16'')]]
     [[(''Date In'', Str ''2024-01-08''), (''Total Less Break'', Num 5)]]
   = Inr \<lparr> casesPerLaborHour =
              [\<lparr> week = ''2024-W02'', receivedCases = 0, shippedCases = 10, laborHours = 5,
                 totalCasesPerLaborHour = Finite 2 \<rparr>,
               \<lparr> week = ''2024-W03'', receivedCases = 5, shippedCases = 0, laborHours = 0,
                 totalCasesPerLaborHour = Finite 0 \<rparr>],
           salesAndPOByWeek =
              [\<lparr> rowWeek = ''2024-W02'', received = 0, shipped = 10, rowLaborHours = 5,
                 rowTotalCasesPerLaborHour = Finite 2 \<rparr>,
               \<lparr> rowWeek = ''2024-W03'', received = 5, shipped = 0, rowLaborHours = 0,
                 rowTotalCasesPerLaborHour = Finite 0 \<rparr>],
           topStoresByWeek = [\<lparr> store = ''Acme'', total = 10 \<rparr>],
           allStoreData =
              [\<lparr> entryWeek = ''2024-W02'', cases = 10, entryStore = ''Acme'' \<rparr>,
               \<lparr> entryWeek = ''2024-W03'', cases = 0, entryStore = ''Acme'' \<rparr>],
           allStores = [''Acme''], weeks = [''2024-W02'', ''2024-W03''] \<rparr>"
    by code_simp
  have d: "numDivide (5 + 0) 0 = PosInfinity" by code_simp
  show ?thesis
    using C9_efficiency_guards_zero_hours[OF h] h d by simp
qed

text \<open>The second file computes the weekly rows with the same lines (1115 to 1131). Its
  clock loop has no check of the hours, so a week's labor hours can be below 0 there;
  the guard gives such a week efficiency 0 as well, and no division by 0 is evaluated.\<close>

theorem second_file_efficiency_guards_zero_hours:
  assumes "calculateMetrics2 products salesOrders purchaseOrders clocks = Some m"
    and "w \<in> set (casesPerLaborHour m)"
  shows "totalCasesPerLaborHour w
           = (if 0 < laborHours w
              then Finite ((receivedCases w + shippedCases w) / laborHours w)
              else Finite 0)"
proof -
  from assms(1) obtain s p l ws where
    "casesPerLaborHour m = objectValues (casesPerLaborHourByWeekOf s p l ws)"
    by (auto simp: calculateMetrics2_def Let_def split: option.splits)
  with assms(2) obtain k where "(k, w) \<in> set (casesPerLaborHourByWeekOf s p l ws)"
    by (auto dest: objectValues_subset)
  then have w: "w = weekMetricsOf s p l k" by (rule casesPerLaborHourByWeek_values)
  show ?thesis unfolding w by (rule weekMetricsOf_efficiency)
qed

section \<open>Which catalog rows are indexed\<close>

lemma objGet_productStep:
  "objGet (productStep acc p) k
     = (if indexable p \<and> toStringVal (productNameOf p) = k then unitsPerCaseOf p
        else objGet acc k)"
  by (auto simp: productStep_def indexable_def Let_def objGet_objSet split: option.splits)

lemma find_snoc:
  "find P (xs @ [x]) = (case find P xs of None \<Rightarrow> (if P x then Some x else None) | Some y \<Rightarrow> Some y)"
  by (induction xs) auto

lemma objGet_foldl_productStep:
  "objGet (foldl productStep acc ps) k
     = (case find (\<lambda>p. indexable p \<and> toStringVal (productNameOf p) = k) (rev ps) of
          None \<Rightarrow> objGet acc k
        | Some p \<Rightarrow> unitsPerCaseOf p)"
proof (induction ps arbitrary: acc)
  case Nil
  then show ?case by simp
next
  case (Cons p ps)
  show ?case
    by (simp add: Cons.IH find_snoc objGet_productStep split: option.splits)
qed

lemma unitsPerCaseOf_default:
  "\<not> truthy (field product ''Units Per Case'') \<Longrightarrow> \<not> truthy (field product ''UnitsPerCase'')
   \<Longrightarrow> \<not> truthy (field product ''Units'') \<Longrightarrow> unitsPerCaseOf product = Some 1"
proof -
  assume a: "\<not> truthy (field product ''Units Per Case'')" "\<not> truthy (field product ''UnitsPerCase'')"
    "\<not> truthy (field product ''Units'')"
  have "parseInt (Str ''1'') = Some 1" by code_simp
  with a show ?thesis by (simp add: unitsPerCaseOf_def orElse_def)
qed

lemma objGet_productStep2:
  "objGet (productStep2 acc p) k
     = (if truthy (field p ''Product Name'') \<and> toStringVal (field p ''Product Name'') = k
        then Some (orElse (field p ''Units Per Case'') (Num 1))
        else objGet acc k)"
  by (simp add: productStep2_def objGet_objSet)

lemma objGet_foldl_productStep2:
  "objGet (foldl productStep2 acc ps) k
     = (case find (\<lambda>p. truthy (field p ''Product Name'')
                       \<and> toStringVal (field p ''Product Name'') = k) (rev ps) of
          None \<Rightarrow> objGet acc k
        | Some p \<Rightarrow> Some (orElse (field p ''Units Per Case'') (Num 1)))"
proof (induction ps arbitrary: acc)
  case Nil
  then show ?case by simp
next
  case (Cons p ps)
  show ?case
    by (simp add: Cons.IH find_snoc objGet_productStep2 split: option.splits)
qed

text \<open>
  Claim C5, as amended: in \<open>processProductData\<close> a catalog row is in the product map
  exactly when its resolved name is truthy and \<open>parseInt\<close> reads an integer above 0
  from its units-per-case value, where a row without a truthy units field (missing,
  \<open>null\<close>, empty or 0) counts as \<open>'1'\<close>. The map gives a name the units of the last
  such row of that name. So a row with a name and no units field is indexed, with 1 unit
  per case; a row whose units value has no leading integer is skipped. The second
  dashboard file indexes every row with a truthy \<open>Product Name\<close> and stores its
  \<open>Units Per Case\<close> value as it is, or 1 when that is not truthy.
\<close>

theorem C5_index_holds_indexable_records:
  "objGet (processProductData products) k
     = (case find (\<lambda>p. indexable p \<and> toStringVal (productNameOf p) = k) (rev products) of
          None \<Rightarrow> None
        | Some p \<Rightarrow> unitsPerCaseOf p)
   \<and> (truthy (productNameOf product)
        \<and> \<not> truthy (field product ''Units Per Case'')
        \<and> \<not> truthy (field product ''UnitsPerCase'')
        \<and> \<not> truthy (field product ''Units'')
      \<longrightarrow> unitsPerCaseOf product = Some 1 \<and> indexable product)
   \<and> objGet (foldl productStep2 [] products) k
     = (case find (\<lambda>p. truthy (field p ''Product Name'')
                       \<and> toStringVal (field p ''Product Name'') = k) (rev products) of
          None \<Rightarrow> None
        | Some p \<Rightarrow> Some (orElse (field p ''Units Per Case'') (Num 1)))"
proof (intro conjI impI)
  show "objGet (processProductData products) k
     = (case find (\<lambda>p. indexable p \<and> toStringVal (productNameOf p) = k) (rev products) of
          None \<Rightarrow> None
        | Some p \<Rightarrow> unitsPerCaseOf p)"
    by (simp add: processProductData_def objGet_foldl_productStep objGet_Nil
          split: option.splits)
next
  assume h: "truthy (productNameOf product)
        \<and> \<not> truthy (field product ''Units Per Case'')
        \<and> \<not> truthy (field product ''UnitsPerCase'')
        \<and> \<not> truthy (field product ''Units'')"
  then show u: "unitsPerCaseOf product = Some 1" by (simp add: unitsPerCaseOf_default)
  from h u show "indexable product" by (simp add: indexable_def)
next
  show "objGet (foldl productStep2 [] products) k
     = (case find (\<lambda>p. truthy (field p ''Product Name'')
                       \<and> toStringVal (field p ''Product Name'') = k) (rev products) of
          None \<Rightarrow> None
        | Some p \<Rightarrow> Some (orElse (field p ''Units Per Case'') (Num 1)))"
    by (simp add: objGet_foldl_productStep2 objGet_Nil split: option.splits)
qed

text \<open>The claim as stated fails: it has a row without a units field skipped. Both files
  index it with 1 unit per case; in the first file the row with the unreadable value is
  the one that is skipped.\<close>

theorem C5_absent_units_counterexample:
  "processProductData [[(''Product Name'', Str ''Widget'')]] = [(''Widget'', 1)]
   \<and> processProductData [[(''Product Name'', Str ''Widget''), (''Units Per Case'', Str ''abc'')]]
       = []
   \<and> foldl productStep2 [] [[(''Product Name'', Str ''Widget'')]] = [(''Widget'', Num 1)]"
  by code_simp

text \<open>A catalog of three rows: one without units, one with unreadable units, one
  valid.\<close>

theorem C5_witness:
  "objGet (processProductData
      [[(''Product Name'', Str ''Widget'')],
       [(''Product Name'', Str ''Gadget''), (''Units Per Case'', Str ''abc'')],
       [(''Name'', Str ''Bolt''), (''Units'', Num 24)]]) ''Widget'' = Some 1
   \<and> unitsPerCaseOf [(''Product Name'', Str ''Widget'')] = Some 1
   \<and> indexable [(''Product Name'', Str ''Widget'')]"
proof -
  let ?w = "[(''Product Name'', Str ''Widget'')]"
  let ?ps = "[?w, [(''Product Name'', Str ''Gadget''), (''Units Per Case'', Str ''abc'')],
       [(''Name'', Str ''Bolt''), (''Units'', Num 24)]]"
  have h: "truthy (productNameOf ?w) \<and> \<not> truthy (field ?w ''Units Per Case'')
        \<and> \<not> truthy (field ?w ''UnitsPerCase'') \<and> \<not> truthy (field ?w ''Units'')"
    by code_simp
  have f: "(case find (\<lambda>p. indexable p \<and> toStringVal (productNameOf p) = ''Widget'') (rev ?ps) of
          None \<Rightarrow> None | Some p \<Rightarrow> unitsPerCaseOf p) = Some 1"
    by code_simp
  show ?thesis
    using C5_index_holds_indexable_records[of ?ps "''Widget''" ?w] h f by simp
qed

section \<open>The store by week series\<close>

lemma allStoreDataOf_pairs:
  "map (\<lambda>e. (entryWeek e, entryStore e)) (allStoreDataOf sw ws ss) = List.product ws ss"
  by (induction ws) (simp_all add: allStoreDataOf_def comp_def)

lemma allStoreDataOf_cases:
  "map cases (allStoreDataOf sw ws ss)
     = map (\<lambda>(wk, st). storeWeekCases sw st wk) (List.product ws ss)"
  by (induction ws) (simp_all add: allStoreDataOf_def comp_def)

text \<open>
  Claim C4, as amended: the store by week series is dense. It has exactly one entry for
  every pair of a week of \<open>weeks\<close> and a store of \<open>allStores\<close>, week by week and
  within a week in ranking order; the cases of an entry are what the sales totals hold
  for that store and week, and 0 where they hold nothing.
\<close>

theorem C4_store_series_is_dense:
  assumes "calculateMetrics products salesOrders purchaseOrders clocks = Inr m"
  shows "map (\<lambda>e. (entryWeek e, entryStore e)) (allStoreData m)
           = List.product (weeks m) (allStores m)
       \<and> map cases (allStoreData m)
           = map (\<lambda>(wk, st). storeWeekCases
                   (salesByStoreAndWeek
                      (processSalesData salesOrders (processProductData products))) st wk)
                 (List.product (weeks m) (allStores m))
       \<and> length (allStoreData m) = length (weeks m) * length (allStores m)"
proof -
  define sw where
    "sw = salesByStoreAndWeek (processSalesData salesOrders (processProductData products))"
  from assms have d: "allStoreData m = allStoreDataOf sw (weeks m) (allStores m)"
    by (auto simp: calculateMetrics_def Let_def sw_def split: if_splits)
  have l: "length (allStoreData m) = length (map cases (allStoreData m))" by simp
  show ?thesis
    unfolding l unfolding d allStoreDataOf_pairs allStoreDataOf_cases sw_def
    by (simp add: length_product)
qed

text \<open>The claim as stated fails: it has no entry for a store and week without sales.
  Two stores that each sell in one of two weeks give four entries, two of them with 0
  cases.\<close>

theorem C4_zero_entries_counterexample:
  "map_sum id allStoreData (calculateMetrics
     [[(''Product Name'', Str ''Widget''), (''Units Per Case'', Num 10)]]
     [[(''Product'', Str ''Widget''), (''Quantity'', Num 100), (''Customer'', Str ''Acme''),
       (''Delivery Date'', Str ''2024-01-08'')],
      [(''Product'', Str ''Widget''), (''Quantity'', Num 50), (''Customer'', Str ''Zeta''),
       (''Delivery Date'', Str ''2024-01-16'')]] [] [])
   = Inr [\<lparr> entryWeek = ''2024-W02'', cases = 10, entryStore = ''Acme'' \<rparr>,
          \<lparr> entryWeek = ''2024-W02'', cases = 0, entryStore = ''Zeta'' \<rparr>,
          \<lparr> entryWeek = ''2024-W03'', cases = 0, entryStore = ''Acme'' \<rparr>,
          \<lparr> entryWeek = ''2024-W03'', cases = 5, entryStore = ''Zeta'' \<rparr>]"
  by code_simp

theorem C4_witness:
  "calculateMetrics
     [[(''Product Name'', Str ''Widget''), (''Units Per Case'', Num 10)]]
     [[(''Product'', Str ''Widget''), (''Quantity'', Num 30), (''Customer'', Str ''Acme''),
       (''Delivery Date'', Str ''2024-01-08'')],
      [(''Product'', Str ''Widget''), (''Quantity'', Num 20), (''Customer'', Str ''Zeta''),
       (''Delivery Date'', Str ''2024-01-16'')]] [] []
   = Inr \<lparr> casesPerLaborHour =
              [\<lparr> week = ''2024-W02'', receivedCases = 0, shippedCases = 3, laborHours = 0,
                 totalCasesPerLaborHour = Finite 0 \<rparr>,
               \<lparr> week = ''2024-W03'', receivedCases = 0, shippedCases = 2, laborHours = 0,
                 totalCasesPerLaborHour = Finite 0 \<rparr>],
           salesAndPOByWeek =
              [\<lparr> rowWeek = ''2024-W02'', received = 0, shipped = 3, rowLaborHours = 0,
                 rowTotalCasesPerLaborHour = Finite 0 \<rparr>,
               \<lparr> rowWeek = ''2024-W03'', received = 0, shipped = 2, rowLaborHours = 0,
                 rowTotalCasesPerLaborHour = Finite 0 \<rparr>],
           topStoresByWeek = [\<lparr> store = ''Acme'', total = 3 \<rparr>, \<lparr> store = ''Zeta'', total = 2 \<rparr>],
           allStoreData =
              [\<lparr> entryWeek = ''2024-W02'', cases = 3, entryStore = ''Acme'' \<rparr>,
               \<lparr> entryWeek = ''2024-W02'', cases = 0, entryStore = ''Zeta'' \<rparr>,
               \<lparr> entryWeek = ''2024-W03'', cases = 0, entryStore = ''Acme'' \<rparr>,
               \<lparr> entryWeek = ''2024-W03'', cases = 2, entryStore = ''Zeta'' \<rparr>],
           allStores = [''Acme'', ''Zeta''], weeks = [''2024-W02'', ''2024-W03''] \<rparr>
   \<and> List.product [''2024-W02'', ''2024-W03''] [''Acme'', ''Zeta'']
       = [(''2024-W02'', ''Acme''), (''2024-W02'', ''Zeta''),
          (''2024-W03'', ''Acme''), (''2024-W03'', ''Zeta'')]"
proof -
  have h: "calculateMetrics
     [[(''Product Name'', Str ''Widget''), (''Units Per Case'', Num 10)]]
     [[(''Product'', Str ''Widget''), (''Quantity'', Num 30), (''Customer'', Str ''Acme''),
       (''Delivery Date'', Str ''2024-01-08'')],
      [(''Product'', Str ''Widget''), (''Quantity'', Num 20), (''Customer'', Str ''Zeta''),
       (''Delivery Date'', Str ''2024-01-16'')]] [] []
   = Inr \<lparr> casesPerLaborHour =
              [\<lparr> week = ''2024-W02'', receivedCases = 0, shippedCases = 3, laborHours = 0,
                 totalCasesPerLaborHour = Finite 0 \<rparr>,
               \<lparr> week = ''2024-W03'', receivedCases = 0, shippedCases = 2, laborHours = 0,
                 totalCasesPerLaborHour = Finite 0 \<rparr>],
           salesAndPOByWeek =
              [\<lparr> rowWeek = ''2024-W02'', received = 0, shipped = 3, rowLaborHours = 0,
                 rowTotalCasesPerLaborHour = Finite 0 \<rparr>,
               \<lparr> rowWeek = ''2024-W03'', received = 0, shipped = 2, rowLaborHours = 0,
                 rowTotalCasesPerLaborHour = Finite 0 \<rparr>],
           topStoresByWeek = [\<lparr> store = ''Acme'', total = 3 \<rparr>, \<lparr> store = ''Zeta'', total = 2 \<rparr>],
           allStoreData =
              [\<lparr> entryWeek = ''2024-W02'', cases = 3, entryStore = ''Acme'' \<rparr>,
               \<lparr> entryWeek = ''2024-W02'', cases = 0, entryStore = ''Zeta'' \<rparr>,
               \<lparr> entryWeek = ''2024-W03'', cases = 0, entryStore = ''Acme'' \<rparr>,
               \<lparr> entryWeek = ''2024-W03'', cases = 2, entryStore = ''Zeta'' \<rparr>],
           allStores = [''Acme'', ''Zeta''], weeks = [''2024-W02'', ''2024-W03''] \<rparr>"
    by code_simp
  show ?thesis
    using C4_store_series_is_dense[OF h] h by simp
qed

section \<open>The store ranking\<close>

lemma set_objectKeys: "set (objectKeys obj) = fst ` set obj"
  by (auto simp: objectKeys_def Let_def)

lemma distinct_objectKeys: "distinct (map fst obj) \<Longrightarrow> distinct (objectKeys obj)"
  by (auto simp: objectKeys_def Let_def distinct_map_filter)

lemma objectKeys_of_objectKeys:
  "map fst obj' = objectKeys obj \<Longrightarrow> objectKeys obj' = objectKeys obj"
proof -
  assume a: "map fst obj' = objectKeys obj"
  let ?ks = "map fst obj"
  let ?idx = "sort_key digitsVal (filter isArrayIndex ?ks)"
  have 1: "filter isArrayIndex (objectKeys obj) = ?idx"
    by (simp add: objectKeys_def Let_def filter_sort)
  have 2: "filter (\<lambda>k. \<not> isArrayIndex k) (objectKeys obj) = filter (\<lambda>k. \<not> isArrayIndex k) ?ks"
    by (simp add: objectKeys_def Let_def filter_sort)
  have 3: "sort_key digitsVal ?idx = ?idx"
    by (rule sort_key_id_if_sorted) simp
  show ?thesis
    unfolding objectKeys_def[of obj'] Let_def a 1 2 3
    by (simp add: objectKeys_def Let_def)
qed

lemma objSet_fresh: "k \<notin> fst ` set obj \<Longrightarrow> objSet k v obj = obj @ [(k, v)]"
  by (induction obj) auto

lemma foldl_objSet_distinct:
  "distinct ks \<Longrightarrow> set ks \<inter> fst ` set acc = {} \<Longrightarrow>
   foldl (\<lambda>acc k. objSet k (g k) acc) acc ks = acc @ map (\<lambda>k. (k, g k)) ks"
proof (induction ks arbitrary: acc)
  case Nil
  then show ?case by simp
next
  case (Cons k ks)
  have f: "objSet k (g k) acc = acc @ [(k, g k)]"
    using Cons.prems(2) by (intro objSet_fresh) auto
  have "foldl (\<lambda>acc k. objSet k (g k) acc) (acc @ [(k, g k)]) ks
          = (acc @ [(k, g k)]) @ map (\<lambda>k. (k, g k)) ks"
    using Cons.prems by (intro Cons.IH) auto
  then show ?case using f by simp
qed

lemma foldl_plus: "foldl (\<lambda>sum c. sum + c) a xs = a + sum_list xs" for a :: rat
  by (induction xs arbitrary: a) (simp_all add: algebra_simps)

lemma storeTotalOf_eq:
  assumes "distinct (map fst sw)"
  shows "storeTotalOf sw = map (\<lambda>st. (st, storeSum sw st)) (objectKeys sw)"
proof -
  have "storeTotalOf sw
          = [] @ map (\<lambda>st. (st, foldl (\<lambda>sum c. sum + c) 0
                           (objectValues (case objGet sw st of None \<Rightarrow> [] | Some w \<Rightarrow> w))))
                   (objectKeys sw)"
    unfolding storeTotalOf_def
    by (rule foldl_objSet_distinct) (simp_all add: distinct_objectKeys assms)
  moreover have "foldl (\<lambda>sum c. sum + c) 0
                   (objectValues (case objGet sw st of None \<Rightarrow> [] | Some w \<Rightarrow> w))
                 = storeSum sw st" for st
    by (simp add: foldl_plus storeSum_def objectValues_def objectKeys_def objGet_Nil
          split: option.splits)
  ultimately show ?thesis by simp
qed

lemma map_of_graph:
  "map_of (map (\<lambda>k. (k, g k)) ks) s = (if s \<in> set ks then Some (g s) else None)"
  by (induction ks) auto

lemma objGet_storeTotalOf:
  assumes "distinct (map fst sw)"
  shows "objGet (storeTotalOf sw) st
           = (if st \<in> set (objectKeys sw) then Some (storeSum sw st) else None)"
  unfolding storeTotalOf_eq[OF assms] objGet_def by (rule map_of_graph)

lemma objectKeys_storeTotalOf:
  assumes "distinct (map fst sw)"
  shows "objectKeys (storeTotalOf sw) = objectKeys sw"
  by (rule objectKeys_of_objectKeys) (simp add: storeTotalOf_eq[OF assms] comp_def)

lemma total_storeTotalOf:
  assumes "distinct (map fst sw)"
  shows "numOr0 (objGet (storeTotalOf sw) s) = storeSum sw s"
proof (cases "s \<in> set (objectKeys sw)")
  case True
  then show ?thesis by (simp add: objGet_storeTotalOf[OF assms] numOr0_def)
next
  case False
  then have "objGet sw s = None"
    by (simp add: set_objectKeys objGet_def map_of_eq_None_iff)
  with False show ?thesis
    by (simp add: objGet_storeTotalOf[OF assms] numOr0_def storeSum_def)
qed

lemma insertBy_storeCompare:
  assumes "objGet tot x \<noteq> None" "\<forall>y \<in> set ys. objGet tot y \<noteq> None"
  shows "insertBy (storeCompare tot) x ys = insort_key (\<lambda>s. - numOr0 (objGet tot s)) x ys"
  using assms
  by (induction ys) (auto simp: sortCompare_def storeCompare_def numOr0_def)

lemma arraySort_storeCompare:
  assumes "\<forall>y \<in> set xs. objGet tot y \<noteq> None"
  shows "arraySort (storeCompare tot) xs = sort_key (\<lambda>s. - numOr0 (objGet tot s)) xs"
  using assms
proof (induction xs)
  case Nil
  then show ?case by (simp add: arraySort_def)
next
  case (Cons x xs)
  then have IH: "arraySort (storeCompare tot) xs = sort_key (\<lambda>s. - numOr0 (objGet tot s)) xs"
    by simp
  have "insertBy (storeCompare tot) x (sort_key (\<lambda>s. - numOr0 (objGet tot s)) xs)
          = insort_key (\<lambda>s. - numOr0 (objGet tot s)) x
              (sort_key (\<lambda>s. - numOr0 (objGet tot s)) xs)"
    using Cons.prems by (intro insertBy_storeCompare) auto
  then show ?case using IH by (simp add: arraySort_def sort_key_def)
qed

lemma allStoresOf_storeTotalOf:
  assumes "distinct (map fst sw)"
  shows "allStoresOf (storeTotalOf sw) = sort_key (\<lambda>s. - storeSum sw s) (objectKeys sw)"
proof -
  have t: "numOr0 (objGet (storeTotalOf sw) s) = storeSum sw s" for s
    by (rule total_storeTotalOf[OF assms])
  have "allStoresOf (storeTotalOf sw)
          = sort_key (\<lambda>s. - numOr0 (objGet (storeTotalOf sw) s)) (objectKeys sw)"
    unfolding allStoresOf_def objectKeys_storeTotalOf[OF assms]
    by (rule arraySort_storeCompare) (simp add: objGet_storeTotalOf[OF assms])
  then show ?thesis by (simp add: t)
qed

lemma distinct_addStore:
  "distinct (map fst (salesByStoreAndWeek acc))
   \<Longrightarrow> distinct (map fst (salesByStoreAndWeek (salesStep pm acc order)))"
  by (auto simp: salesStep_def Let_def distinct_objSet keys_objSet split: option.splits)

lemma distinct_foldl_salesStep:
  "distinct (map fst (salesByStoreAndWeek acc))
   \<Longrightarrow> distinct (map fst (salesByStoreAndWeek (foldl (salesStep pm) acc orders)))"
  by (induction orders arbitrary: acc) (simp_all add: distinct_addStore)

lemma distinct_processSalesData:
  "distinct (map fst (salesByStoreAndWeek (processSalesData orders pm)))"
  unfolding processSalesData_def by (rule distinct_foldl_salesStep) simp

text \<open>
  Claim C7, as amended: the total of a store is the sum of its cases over its weeks. The
  full store list \<open>allStores\<close> holds every store of the sales totals once, sorted by
  total in descending order; stores with equal totals stay in the order \<open>Object.keys\<close>
  gives them (the order in which the stores first occur in the sales rows, after any
  names that are array indices), and no comparison of names takes place. The ranking is
  the first ten stores of that list with their totals.
\<close>

theorem C7_ranking_is_stable_descending:
  assumes "calculateMetrics products salesOrders purchaseOrders clocks = Inr m"
  shows "set (allStores m)
           = set (objectKeys (salesByStoreAndWeek
                     (processSalesData salesOrders (processProductData products))))
       \<and> distinct (allStores m)
       \<and> sorted_wrt (\<lambda>a b.
             storeSum (salesByStoreAndWeek
                        (processSalesData salesOrders (processProductData products))) b
             \<le> storeSum (salesByStoreAndWeek
                        (processSalesData salesOrders (processProductData products))) a)
           (allStores m)
       \<and> (\<forall>t. filter (\<lambda>s. storeSum (salesByStoreAndWeek
                        (processSalesData salesOrders (processProductData products))) s = t)
                  (allStores m)
              = filter (\<lambda>s. storeSum (salesByStoreAndWeek
                        (processSalesData salesOrders (processProductData products))) s = t)
                  (objectKeys (salesByStoreAndWeek
                     (processSalesData salesOrders (processProductData products)))))
       \<and> topStoresByWeek m
           = map (\<lambda>s. \<lparr> store = s,
                       total = storeSum (salesByStoreAndWeek
                        (processSalesData salesOrders (processProductData products))) s \<rparr>)
                 (take 10 (allStores m))"
proof -
  define sw where
    "sw = salesByStoreAndWeek (processSalesData salesOrders (processProductData products))"
  have d: "distinct (map fst sw)" unfolding sw_def by (rule distinct_processSalesData)
  from assms have a: "allStores m = allStoresOf (storeTotalOf sw)"
    and b: "topStoresByWeek m = topStoresDataOf (storeTotalOf sw) (take 10 (allStores m))"
    by (auto simp: calculateMetrics_def Let_def sw_def split: if_splits)
  have a': "allStores m = sort_key (\<lambda>s. - storeSum sw s) (objectKeys sw)"
    unfolding a by (rule allStoresOf_storeTotalOf[OF d])
  have 1: "set (allStores m) = set (objectKeys sw) \<and> distinct (allStores m)"
    unfolding a' by (simp add: distinct_objectKeys[OF d])
  have "sorted (map (\<lambda>s. - storeSum sw s) (allStores m))" unfolding a' by (rule sorted_sort_key)
  then have 2: "sorted_wrt (\<lambda>a b. storeSum sw b \<le> storeSum sw a) (allStores m)"
    by (simp add: sorted_map)
  have 3: "filter (\<lambda>s. storeSum sw s = t) (allStores m)
             = filter (\<lambda>s. storeSum sw s = t) (objectKeys sw)" for t
    using sort_key_stable[of "\<lambda>s. - storeSum sw s" "- t" "objectKeys sw"]
    unfolding a' by simp
  have t: "numOr0 (objGet (storeTotalOf sw) s) = storeSum sw s" for s
    by (rule total_storeTotalOf[OF d])
  have 4: "topStoresByWeek m
             = map (\<lambda>s. \<lparr> store = s, total = storeSum sw s \<rparr>) (take 10 (allStores m))"
    unfolding b topStoresDataOf_def by (simp add: t)
  show ?thesis using 1 2 3 4 unfolding sw_def by blast
qed

text \<open>The claim as stated fails: it has ties broken by store name in ascending order.
  Zeta and Acme both total 10 cases and Zeta occurs first in the sales rows: the code
  ranks Zeta before Acme.\<close>

theorem C7_equal_totals_counterexample:
  "map_sum id (\<lambda>m. (allStores m, topStoresByWeek m)) (calculateMetrics
     [[(''Product Name'', Str ''Widget''), (''Units Per Case'', Num 10)]]
     [[(''Product'', Str ''Widget''), (''Quantity'', Num 100), (''Customer'', Str ''Zeta''),
       (''Delivery Date'', Str ''2024-01-08'')],
      [(''Product'', Str ''Widget''), (''Quantity'', Num 100), (''Customer'', Str ''Acme''),
       (''Delivery Date'', Str ''2024-01-09'')]] [] [])
   = Inr ([''Zeta'', ''Acme''],
          [\<lparr> store = ''Zeta'', total = 10 \<rparr>, \<lparr> store = ''Acme'', total = 10 \<rparr>])"
  by code_simp

text \<open>Three stores: Zeta and Acme with 10 cases each, Big with 20.\<close>

theorem C7_witness:
  "calculateMetrics
     [[(''Product Name'', Str ''Widget''), (''Units Per Case'', Num 10)]]
     [[(''Product'', Str ''Widget''), (''Quantity'', Num 100), (''Customer'', Str ''Zeta''),
       (''Delivery Date'', Str ''2024-01-08'')],
      [(''Product'', Str ''Widget''), (''Quantity'', Num 100), (''Customer'', Str ''Acme''),
       (''Delivery Date'', Str ''2024-01-09'')],
      [(''Product'', Str ''Widget''), (''Quantity'', Num 200), (''Customer'', Str ''Big''),
       (''Delivery Date'', Str ''2024-01-10'')]] [] []
   = Inr \<lparr> casesPerLaborHour =
              [\<lparr> week = ''2024-W02'', receivedCases = 0, shippedCases = 40, laborHours = 0,
                 totalCasesPerLaborHour = Finite 0 \<rparr>],
           salesAndPOByWeek =
              [\<lparr> rowWeek = ''2024-W02'', received = 0, shipped = 40, rowLaborHours = 0,
                 rowTotalCasesPerLaborHour = Finite 0 \<rparr>],
           topStoresByWeek =
              [\<lparr> store = ''Big'', total = 20 \<rparr>, \<lparr> store = ''Zeta'', total = 10 \<rparr>,
               \<lparr> store = ''Acme'', total = 10 \<rparr>],
           allStoreData =
              [\<lparr> entryWeek = ''2024-W02'', cases = 20, entryStore = ''Big'' \<rparr>,
               \<lparr> entryWeek = ''2024-W02'', cases = 10, entryStore = ''Zeta'' \<rparr>,
               \<lparr> entryWeek = ''2024-W02'', cases = 10, entryStore = ''Acme'' \<rparr>],
           allStores = [''Big'', ''Zeta'', ''Acme''], weeks = [''2024-W02''] \<rparr>
   \<and> objectKeys (salesByStoreAndWeek (processSalesData
        [[(''Product'', Str ''Widget''), (''Quantity'', Num 100), (''Customer'', Str ''Zeta''),
          (''Delivery Date'', Str ''2024-01-08'')],
         [(''Product'', Str ''Widget''), (''Quantity'', Num 100), (''Customer'', Str ''Acme''),
          (''Delivery Date'', Str ''2024-01-09'')],
         [(''Product'', Str ''Widget''), (''Quantity'', Num 200), (''Customer'', Str ''Big''),
          (''Delivery Date'', Str ''2024-01-10'')]]
        (processProductData [[(''Product Name'', Str ''Widget''), (''Units Per Case'', Num 10)]])))
      = [''Zeta'', ''Acme'', ''Big'']"
proof -
  have h: "calculateMetrics
     [[(''Product Name'', Str ''Widget''), (''Units Per Case'', Num 10)]]
     [[(''Product'', Str ''Widget''), (''Quantity'', Num 100), (''Customer'', Str ''Zeta''),
       (''Delivery Date'', Str ''2024-01-08'')],
      [(''Product'', Str ''Widget''), (''Quantity'', Num 100), (''Customer'', Str ''Acme''),
       (''Delivery Date'', Str ''2024-01-09'')],
      [(''Product'', Str ''Widget''), (''Quantity'', Num 200), (''Customer'', Str ''Big''),
       (''Delivery Date'', Str ''2024-01-10'')]] [] []
   = Inr \<lparr> casesPerLaborHour =
              [\<lparr> week = ''2024-W02'', receivedCases = 0, shippedCases = 40, laborHours = 0,
                 totalCasesPerLaborHour = Finite 0 \<rparr>],
           salesAndPOByWeek =
              [\<lparr> rowWeek = ''2024-W02'', received = 0, shipped = 40, rowLaborHours = 0,
                 rowTotalCasesPerLaborHour = Finite 0 \<rparr>],
           topStoresByWeek =
              [\<lparr> store = ''Big'', total = 20 \<rparr>, \<lparr> store = ''Zeta'', total = 10 \<rparr>,
               \<lparr> store = ''Acme'', total = 10 \<rparr>],
           allStoreData =
              [\<lparr> entryWeek = ''2024-W02'', cases = 20, entryStore = ''Big'' \<rparr>,
               \<lparr> entryWeek = ''2024-W02'', cases = 10, entryStore = ''Zeta'' \<rparr>,
               \<lparr> entryWeek = ''2024-W02'', cases = 10, entryStore = ''Acme'' \<rparr>],
           allStores = [''Big'', ''Zeta'', ''Acme''], weeks = [''2024-W02''] \<rparr>"
    by code_simp
  have k: "objectKeys (salesByStoreAndWeek (processSalesData
        [[(''Product'', Str ''Widget''), (''Quantity'', Num 100), (''Customer'', Str ''Zeta''),
          (''Delivery Date'', Str ''2024-01-08'')],
         [(''Product'', Str ''Widget''), (''Quantity'', Num 100), (''Customer'', Str ''Acme''),
          (''Delivery Date'', Str ''2024-01-09'')],
         [(''Product'', Str ''Widget''), (''Quantity'', Num 200), (''Customer'', Str ''Big''),
          (''Delivery Date'', Str ''2024-01-10'')]]
        (processProductData [[(''Product Name'', Str ''Widget''), (''Units Per Case'', Num 10)]])))
      = [''Zeta'', ''Acme'', ''Big'']"
    by code_simp
  show ?thesis
    using C7_ranking_is_stable_descending[OF h] h k by simp
qed

section \<open>The store outputs of the second file\<close>

lemma distinct_salesStep2:
  "distinct (map fst (salesByStoreAndWeek acc)) \<Longrightarrow> salesStep2 pm acc order = Some acc'
   \<Longrightarrow> distinct (map fst (salesByStoreAndWeek acc'))"
  by (auto simp: salesStep2_def Let_def distinct_objSet keys_objSet
        split: option.splits if_splits)

lemma distinct_processSales2:
  "distinct (map fst (salesByStoreAndWeek acc)) \<Longrightarrow> processSales2 pm acc orders = Some acc'
   \<Longrightarrow> distinct (map fst (salesByStoreAndWeek acc'))"
proof (induction orders arbitrary: acc)
  case Nil
  then show ?case by simp
next
  case (Cons order orders)
  from Cons.prems(2) obtain acc1 where
    s: "salesStep2 pm acc order = Some acc1" and r: "processSales2 pm acc1 orders = Some acc'"
    by (auto split: option.splits)
  have "distinct (map fst (salesByStoreAndWeek acc1))"
    using Cons.prems(1) s by (rule distinct_salesStep2)
  then show ?case using r by (rule Cons.IH)
qed

text \<open>From line 1138 on the second file computes the store totals, the ranking and the
  store by week series as the first file does, so its outputs have the same shape: a
  dense series, and a ranking that is sorted by total and leaves equal totals in the
  order of \<open>Object.keys\<close>.\<close>

theorem second_file_store_outputs:
  assumes "calculateMetrics2 products salesOrders purchaseOrders clocks = Some m"
    and "processSales2 (foldl productStep2 [] products)
           \<lparr> salesByWeek = [], salesByStoreAndWeek = [] \<rparr> salesOrders = Some sales"
  shows "map (\<lambda>e. (entryWeek e, entryStore e)) (allStoreData m)
           = List.product (weeks m) (allStores m)
       \<and> map cases (allStoreData m)
           = map (\<lambda>(wk, st). storeWeekCases (salesByStoreAndWeek sales) st wk)
                 (List.product (weeks m) (allStores m))
       \<and> set (allStores m) = set (objectKeys (salesByStoreAndWeek sales))
       \<and> sorted_wrt (\<lambda>a b. storeSum (salesByStoreAndWeek sales) b
                             \<le> storeSum (salesByStoreAndWeek sales) a) (allStores m)
       \<and> (\<forall>t. filter (\<lambda>s. storeSum (salesByStoreAndWeek sales) s = t) (allStores m)
              = filter (\<lambda>s. storeSum (salesByStoreAndWeek sales) s = t)
                  (objectKeys (salesByStoreAndWeek sales)))
       \<and> topStoresByWeek m
           = map (\<lambda>s. \<lparr> store = s, total = storeSum (salesByStoreAndWeek sales) s \<rparr>)
                 (take 10 (allStores m))"
proof -
  define sw where "sw = salesByStoreAndWeek sales"
  have d: "distinct (map fst sw)"
    unfolding sw_def by (rule distinct_processSales2[OF _ assms(2)]) simp
  from assms have a: "allStores m = allStoresOf (storeTotalOf sw)"
    and b: "topStoresByWeek m = topStoresDataOf (storeTotalOf sw) (take 10 (allStores m))"
    and c: "allStoreData m = allStoreDataOf sw (weeks m) (allStores m)"
    by (auto simp: calculateMetrics2_def Let_def sw_def split: option.splits)
  have a': "allStores m = sort_key (\<lambda>s. - storeSum sw s) (objectKeys sw)"
    unfolding a by (rule allStoresOf_storeTotalOf[OF d])
  have 1: "set (allStores m) = set (objectKeys sw)" unfolding a' by simp
  have "sorted (map (\<lambda>s. - storeSum sw s) (allStores m))" unfolding a' by (rule sorted_sort_key)
  then have 2: "sorted_wrt (\<lambda>a b. storeSum sw b \<le> storeSum sw a) (allStores m)"
    by (simp add: sorted_map)
  have 3: "filter (\<lambda>s. storeSum sw s = t) (allStores m)
             = filter (\<lambda>s. storeSum sw s = t) (objectKeys sw)" for t
    using sort_key_stable[of "\<lambda>s. - storeSum sw s" "- t" "objectKeys sw"]
    unfolding a' by simp
  have 4: "topStoresByWeek m
             = map (\<lambda>s. \<lparr> store = s, total = storeSum sw s \<rparr>) (take 10 (allStores m))"
    unfolding b topStoresDataOf_def by (simp add: total_storeTotalOf[OF d])
  have 5: "map (\<lambda>e. (entryWeek e, entryStore e)) (allStoreData m)
             = List.product (weeks m) (allStores m)"
    unfolding c by (rule allStoreDataOf_pairs)
  have 6: "map cases (allStoreData m)
             = map (\<lambda>(wk, st). storeWeekCases sw st wk) (List.product (weeks m) (allStores m))"
    unfolding c by (rule allStoreDataOf_cases)
  show ?thesis using 1 2 3 4 5 6 unfolding sw_def by blast
qed

section \<open>Printing and reading integers\<close>

lemma below_ten:
  "k < 10 \<Longrightarrow> k = 0 \<or> k = 1 \<or> k = 2 \<or> k = 3 \<or> k = 4 \<or> k = 5 \<or> k = 6 \<or> k = 7
     \<or> k = 8 \<or> k = 9" for k :: nat
  by arith

lemma isDigit_digitChar: "isDigit (digitChar n)"
proof -
  have "n mod 10 < 10" by simp
  from below_ten[OF this] show ?thesis
    unfolding isDigit_def digitChar_def by (elim disjE) simp_all
qed

lemma digitVal_digitChar: "digitVal (digitChar n) = int (n mod 10)"
proof -
  have "n mod 10 < 10" by simp
  from below_ten[OF this] show ?thesis
    unfolding digitVal_def digitChar_def by (elim disjE) simp_all
qed

lemma showNat_digits: "list_all isDigit (showNat n)"
proof (induction n rule: showNat.induct)
  case (1 n)
  show ?case
  proof (cases "n < 10")
    case True
    then show ?thesis by (subst showNat.simps) (simp add: isDigit_digitChar)
  next
    case False
    then show ?thesis using 1 by (subst showNat.simps) (simp add: isDigit_digitChar)
  qed
qed

lemma showNat_not_empty: "showNat n \<noteq> []"
  by (subst showNat.simps) simp

lemma digitsVal_snoc: "digitsVal (s @ [c]) = 10 * digitsVal s + digitVal c"
  by (simp add: digitsVal_def)

lemma digitsVal_showNat: "digitsVal (showNat n) = int n"
proof (induction n rule: showNat.induct)
  case (1 n)
  show ?case
  proof (cases "n < 10")
    case True
    then show ?thesis
      by (subst showNat.simps) (simp add: digitsVal_def digitVal_digitChar)
  next
    case False
    then have "digitsVal (showNat (n div 10)) = int (n div 10)" using 1 by simp
    with False show ?thesis
      by (subst showNat.simps) (simp add: digitsVal_snoc digitVal_digitChar zdiv_int zmod_int)
  qed
qed

lemma digit_facts:
  "isDigit c \<Longrightarrow> \<not> isSpace c \<and> c \<noteq> CHR ''-'' \<and> c \<noteq> CHR ''+'' \<and> c \<noteq> CHR ''W''"
  by (auto simp: isDigit_def isSpace_def)

lemma parseIntStr_digits:
  assumes "list_all isDigit s" "s \<noteq> []"
  shows "parseIntStr s = Some (digitsVal s)"
proof -
  obtain c cs where s: "s = c # cs" using assms(2) by (cases s) auto
  then have c: "isDigit c" using assms(1) by simp
  have d: "dropWhile isSpace s = s" using c digit_facts[OF c] by (simp add: s)
  have st: "stripSign s = (False, s)" using digit_facts[OF c] by (simp add: stripSign_def s)
  have t: "takeWhile isDigit s = s" using assms(1) by (simp add: list_all_iff)
  show ?thesis using assms(2) by (simp add: parseIntStr_def d st t)
qed

lemma parseIntStr_minus_digits:
  assumes "list_all isDigit s" "s \<noteq> []"
  shows "parseIntStr (CHR ''-'' # s) = Some (- digitsVal s)"
proof -
  have sp: "\<not> isSpace CHR ''-''" by (simp add: isSpace_def)
  have t: "takeWhile isDigit s = s" using assms(1) by (simp add: list_all_iff)
  show ?thesis using assms(2) sp by (simp add: parseIntStr_def stripSign_def t)
qed

lemma parseIntStr_showInt: "parseIntStr (showInt i) = Some i"
proof (cases "i < 0")
  case True
  have "parseIntStr (CHR ''-'' # showNat (nat (- i))) = Some (- digitsVal (showNat (nat (- i))))"
    by (rule parseIntStr_minus_digits) (rule showNat_digits, rule showNat_not_empty)
  with True show ?thesis by (simp add: showInt_def digitsVal_showNat)
next
  case False
  have "parseIntStr (showNat (nat i)) = Some (digitsVal (showNat (nat i)))"
    by (rule parseIntStr_digits) (rule showNat_digits, rule showNat_not_empty)
  with False show ?thesis by (simp add: showInt_def digitsVal_showNat)
qed

lemma showInt_inj: "showInt i = showInt j \<Longrightarrow> i = j"
  by (metis option.inject parseIntStr_showInt)

lemma digitsVal_leading_zero: "digitsVal (CHR ''0'' # s) = digitsVal s"
  by (simp add: digitsVal_def digitVal_def)

lemma parseIntStr_padStart: "parseIntStr (padStart 2 (CHR ''0'') (showInt i)) = Some i"
proof (cases "length (showInt i) < 2")
  case False
  then show ?thesis by (simp add: padStart_def parseIntStr_showInt)
next
  case True
  have ne: "showInt i \<noteq> []" by (simp add: showInt_def showNat_not_empty)
  with True have l: "length (showInt i) = 1" by (cases "showInt i") auto
  then have nonneg: "\<not> i < 0" using showNat_not_empty[of "nat (- i)"]
    by (auto simp: showInt_def)
  then have si: "showInt i = showNat (nat i)" by (simp add: showInt_def)
  have z: "isDigit CHR ''0''" by (simp add: isDigit_def)
  have "padStart 2 (CHR ''0'') (showInt i) = CHR ''0'' # showNat (nat i)"
    using l si by (simp add: padStart_def)
  moreover have "parseIntStr (CHR ''0'' # showNat (nat i)) = Some (digitsVal (CHR ''0'' # showNat (nat i)))"
    by (rule parseIntStr_digits) (simp_all add: z showNat_digits)
  ultimately show ?thesis using nonneg
    by (simp add: digitsVal_leading_zero digitsVal_showNat)
qed

lemma no_W_showInt: "CHR ''W'' \<notin> set (showInt i)"
  using showNat_digits digit_facts
  by (auto simp: showInt_def list_all_iff)

lemma no_W_padStart: "CHR ''W'' \<notin> set (padStart 2 (CHR ''0'') (showInt i))"
  using no_W_showInt[of i] by (auto simp: padStart_def)

section \<open>Splitting a week key\<close>

lemma splitDashW_no_W: "CHR ''W'' \<notin> set s \<Longrightarrow> splitDashW s = [s]"
  by (induction s rule: splitDashW.induct) auto

lemma splitDashW_append:
  "CHR ''W'' \<notin> set a \<Longrightarrow> splitDashW (a @ CHR ''-'' # CHR ''W'' # b) = a # splitDashW b"
proof (induction a)
  case Nil
  then show ?case by simp
next
  case (Cons c a)
  then have IH: "splitDashW (a @ CHR ''-'' # CHR ''W'' # b) = a # splitDashW b" by simp
  obtain d cs where dcs: "a @ CHR ''-'' # CHR ''W'' # b = d # cs" by (cases a) auto
  have dW: "d \<noteq> CHR ''W''" using dcs Cons.prems by (cases a) auto
  show ?case using IH dW unfolding append_Cons dcs by simp
qed

lemma splitDashW_weekKey:
  "splitDashW (weekKey d)
     = [showInt (getYear d), padStart 2 (CHR ''0'') (showInt (getISOWeek d))]"
  using splitDashW_append[OF no_W_showInt, of "getYear d" "padStart 2 (CHR ''0'') (showInt (getISOWeek d))"]
    splitDashW_no_W[OF no_W_padStart, of "getISOWeek d"]
  by (simp add: weekKey_def Let_def)

lemma weekCompare_weekKey:
  "weekCompare (weekKey a) (weekKey b)
     = Some (of_int (if getYear a \<noteq> getYear b then getYear a - getYear b
                     else getISOWeek a - getISOWeek b))"
  using showInt_inj[of "getYear a" "getYear b"]
  by (auto simp: weekCompare_def Let_def splitDashW_weekKey element_def parseInt_def
        parseIntStr_showInt parseIntStr_padStart numSub_def)

section \<open>Sorting with a comparator\<close>

lemma set_insertBy: "set (insertBy cmp x ys) = insert x (set ys)"
  by (induction ys) auto

lemma set_arraySort: "set (arraySort cmp xs) = set xs"
  by (induction xs) (simp_all add: arraySort_def set_insertBy)

lemma distinct_insertBy: "distinct (insertBy cmp x ys) = (x \<notin> set ys \<and> distinct ys)"
  by (induction ys) (auto simp: set_insertBy)

lemma distinct_arraySort: "distinct (arraySort cmp xs) = distinct xs"
proof (induction xs)
  case Nil
  then show ?case by (simp add: arraySort_def)
next
  case (Cons x xs)
  then have "distinct (foldr (insertBy cmp) xs []) = distinct xs" by (simp add: arraySort_def)
  moreover have "set (foldr (insertBy cmp) xs []) = set xs"
    using set_arraySort[of cmp xs] by (simp add: arraySort_def)
  ultimately show ?case by (simp add: arraySort_def distinct_insertBy)
qed

lemma sorted_insertBy:
  assumes le: "\<And>a b. a \<in> S \<Longrightarrow> b \<in> S \<Longrightarrow> (sortCompare cmp a b \<le> 0) = le a b"
    and total: "\<And>a b. a \<in> S \<Longrightarrow> b \<in> S \<Longrightarrow> le a b \<or> le b a"
    and trans: "\<And>a b c. a \<in> S \<Longrightarrow> b \<in> S \<Longrightarrow> c \<in> S \<Longrightarrow> le a b \<Longrightarrow> le b c \<Longrightarrow> le a c"
    and "x \<in> S" "set ys \<subseteq> S" "sorted_wrt le ys"
  shows "sorted_wrt le (insertBy cmp x ys)"
  using assms(4-6)
proof (induction ys)
  case Nil
  then show ?case by simp
next
  case (Cons y ys)
  show ?case
  proof (cases "sortCompare cmp x y \<le> 0")
    case True
    then have xy: "le x y" using le[of x y] Cons.prems by simp
    have "le x z" if "z \<in> set ys" for z
      using trans[of x y z] xy that Cons.prems by auto
    with True xy Cons.prems show ?thesis by auto
  next
    case False
    then have "\<not> le x y" using le[of x y] Cons.prems by simp
    then have yx: "le y x" using total[of x y] Cons.prems by auto
    have "sorted_wrt le (insertBy cmp x ys)" using Cons by simp
    with False yx Cons.prems show ?thesis by (auto simp: set_insertBy)
  qed
qed

lemma sorted_arraySort:
  assumes le: "\<And>a b. a \<in> S \<Longrightarrow> b \<in> S \<Longrightarrow> (sortCompare cmp a b \<le> 0) = le a b"
    and total: "\<And>a b. a \<in> S \<Longrightarrow> b \<in> S \<Longrightarrow> le a b \<or> le b a"
    and trans: "\<And>a b c. a \<in> S \<Longrightarrow> b \<in> S \<Longrightarrow> c \<in> S \<Longrightarrow> le a b \<Longrightarrow> le b c \<Longrightarrow> le a c"
    and "set xs \<subseteq> S"
  shows "sorted_wrt le (arraySort cmp xs)"
  using assms(4)
proof (induction xs)
  case Nil
  then show ?case by (simp add: arraySort_def)
next
  case (Cons x xs)
  have s: "sorted_wrt le (arraySort cmp xs)" using Cons by simp
  have "sorted_wrt le (insertBy cmp x (arraySort cmp xs))"
    by (rule sorted_insertBy[where S = S, OF le total trans])
       (use Cons.prems s in \<open>auto simp: set_arraySort\<close>)
  then show ?case by (simp add: arraySort_def)
qed

lemma newSet_aux:
  "set (foldl (\<lambda>acc x. if x \<in> set acc then acc else acc @ [x]) acc xs) = set acc \<union> set xs
   \<and> (distinct acc \<longrightarrow> distinct (foldl (\<lambda>acc x. if x \<in> set acc then acc else acc @ [x]) acc xs))"
  by (induction xs arbitrary: acc) auto

lemma set_newSet: "set (newSet xs) = set xs"
  using newSet_aux[of "[]" xs] by (simp add: newSet_def)

lemma distinct_newSet: "distinct (newSet xs)"
  using newSet_aux[of "[]" xs] by (simp add: newSet_def)

section \<open>Week keys in the totals\<close>

lemma keyYear_weekKey: "keyYear (weekKey d) = Some (getYear d)"
  by (simp add: keyYear_def splitDashW_weekKey element_def parseInt_def parseIntStr_showInt)

lemma keyWeek_weekKey: "keyWeek (weekKey d) = Some (getISOWeek d)"
  by (simp add: keyWeek_def splitDashW_weekKey element_def parseInt_def parseIntStr_padStart)

lemma weekKeyLeq_weekKey:
  "weekKeyLeq (weekKey a) (weekKey b)
     = (getYear a < getYear b \<or> (getYear a = getYear b \<and> getISOWeek a \<le> getISOWeek b))"
  by (simp add: weekKeyLeq_def keyYear_weekKey keyWeek_weekKey)

lemma sortCompare_weekKey:
  "(sortCompare weekCompare (weekKey a) (weekKey b) \<le> 0) = weekKeyLeq (weekKey a) (weekKey b)"
  by (auto simp: sortCompare_def weekCompare_weekKey weekKeyLeq_weekKey)

lemma sorted_allWeeks:
  assumes "set xs \<subseteq> range weekKey"
  shows "sorted_wrt weekKeyLeq (arraySort weekCompare xs)"
proof (rule sorted_arraySort[where S = "range weekKey"])
  fix a b assume "a \<in> range weekKey" "b \<in> range weekKey"
  then show "(sortCompare weekCompare a b \<le> 0) = weekKeyLeq a b"
    by (auto simp: sortCompare_weekKey)
next
  fix a b :: string assume "a \<in> range weekKey" "b \<in> range weekKey"
  then show "weekKeyLeq a b \<or> weekKeyLeq b a"
    by (auto simp: weekKeyLeq_weekKey)
next
  fix a b c :: string
  assume "a \<in> range weekKey" "b \<in> range weekKey" "c \<in> range weekKey"
    "weekKeyLeq a b" "weekKeyLeq b c"
  then show "weekKeyLeq a c"
    by (auto simp: weekKeyLeq_weekKey)
next
  show "set xs \<subseteq> range weekKey" by (rule assms)
qed

lemma weekKey_not_index: "\<not> isArrayIndex (weekKey d)"
proof -
  have "CHR ''W'' \<in> set (weekKey d)" by (simp add: weekKey_def Let_def)
  moreover have "\<not> isDigit CHR ''W''" by (simp add: isDigit_def)
  ultimately show ?thesis by (auto simp: isArrayIndex_def list_all_iff)
qed

lemma getWeekNumber_range: "getWeekNumber v = Some wk \<Longrightarrow> wk \<in> range weekKey"
  by (auto simp: getWeekNumber_def split: option.splits)

lemma keys_addTo_subset: "fst ` set (addTo b k c) = insert k (fst ` set b)"
  using keys_addTo[of b k c, THEN arg_cong, of set] by (auto split: if_splits)

lemma salesStep_weekKeys:
  "fst ` set (salesByWeek acc) \<subseteq> range weekKey
   \<Longrightarrow> fst ` set (salesByWeek (salesStep pm acc order)) \<subseteq> range weekKey"
  by (auto simp: salesStep_def Let_def keys_addTo_subset dest: getWeekNumber_range
        split: option.splits)

lemma processSalesData_weekKeys:
  "fst ` set (salesByWeek (processSalesData orders pm)) \<subseteq> range weekKey"
proof -
  have "fst ` set (salesByWeek acc) \<subseteq> range weekKey
        \<Longrightarrow> fst ` set (salesByWeek (foldl (salesStep pm) acc orders)) \<subseteq> range weekKey" for acc
    by (induction orders arbitrary: acc) (simp_all add: salesStep_weekKeys)
  then show ?thesis by (simp add: processSalesData_def)
qed

lemma purchaseStep_weekKeys:
  "fst ` set b \<subseteq> range weekKey \<Longrightarrow> fst ` set (purchaseStep pm b po) \<subseteq> range weekKey"
  by (auto simp: purchaseStep_def Let_def keys_addTo_subset dest: getWeekNumber_range
        split: option.splits)

lemma processPurchaseData_weekKeys:
  "fst ` set (processPurchaseData pos pm) \<subseteq> range weekKey"
proof -
  have "fst ` set b \<subseteq> range weekKey
        \<Longrightarrow> fst ` set (foldl (purchaseStep pm) b pos) \<subseteq> range weekKey" for b
    by (induction pos arbitrary: b) (simp_all add: purchaseStep_weekKeys)
  then show ?thesis by (simp add: processPurchaseData_def)
qed

lemma clockStep_weekKeys:
  "fst ` set b \<subseteq> range weekKey \<Longrightarrow> fst ` set (clockStep b clock) \<subseteq> range weekKey"
  by (auto simp: clockStep_def Let_def keys_addTo_subset dest: getWeekNumber_range
        split: option.splits)

lemma processClockData_weekKeys:
  "fst ` set (processClockData clocks) \<subseteq> range weekKey"
proof -
  have "fst ` set b \<subseteq> range weekKey
        \<Longrightarrow> fst ` set (foldl clockStep b clocks) \<subseteq> range weekKey" for b
    by (induction clocks arbitrary: b) (simp_all add: clockStep_weekKeys)
  then show ?thesis by (simp add: processClockData_def)
qed

section \<open>The weeks of the first file\<close>

lemma objectKeys_no_index:
  "\<forall>k \<in> set (map fst obj). \<not> isArrayIndex k \<Longrightarrow> objectKeys obj = map fst obj"
proof -
  assume a: "\<forall>k \<in> set (map fst obj). \<not> isArrayIndex k"
  then have "filter isArrayIndex (map fst obj) = []" by (simp add: filter_empty_conv)
  moreover from a have "filter (\<lambda>k. \<not> isArrayIndex k) (map fst obj) = map fst obj"
    by (simp add: filter_id_conv)
  ultimately show ?thesis unfolding objectKeys_def Let_def by simp
qed

lemma objectValues_graph:
  assumes "\<forall>k \<in> set ks. \<not> isArrayIndex k"
  shows "objectValues (map (\<lambda>k. (k, f k)) ks) = map f ks"
proof -
  have k: "objectKeys (map (\<lambda>k. (k, f k)) ks) = ks"
    using assms by (subst objectKeys_no_index) (simp_all add: comp_def)
  have "concat (map (\<lambda>k. case map_of (map (\<lambda>k. (k, f k)) ks) k of None \<Rightarrow> [] | Some v \<Rightarrow> [v]) xs)
          = map f xs" if "set xs \<subseteq> set ks" for xs
    using that by (induction xs) (simp_all add: map_of_graph)
  then show ?thesis unfolding objectValues_def k objGet_def by simp
qed

lemma casesPerLaborHourByWeekOf_eq:
  "distinct ws \<Longrightarrow>
   casesPerLaborHourByWeekOf s p l ws = map (\<lambda>wk. (wk, weekMetricsOf s p l wk)) ws"
  unfolding casesPerLaborHourByWeekOf_def
  using foldl_objSet_distinct[of ws "[]" "weekMetricsOf s p l"] by simp

text \<open>
  The first dashboard file takes its weeks from all three totals: they are the week keys
  of the sales, purchase and labor totals together, each once, in ascending order of
  year and week read as integers, and there is one weekly row per week, with 0 for a
  total that has no bucket for the week.
\<close>

theorem weeks_cover_sales_purchases_and_labor:
  assumes "calculateMetrics products salesOrders purchaseOrders clocks = Inr m"
  shows "set (weeks m)
           = set (objectKeys (salesByWeek
                    (processSalesData salesOrders (processProductData products))))
             \<union> set (objectKeys (processPurchaseData purchaseOrders
                                  (processProductData products)))
             \<union> set (objectKeys (processClockData clocks))
       \<and> distinct (weeks m)
       \<and> sorted_wrt weekKeyLeq (weeks m)
       \<and> casesPerLaborHour m
           = map (weekMetricsOf
                    (salesByWeek (processSalesData salesOrders (processProductData products)))
                    (processPurchaseData purchaseOrders (processProductData products))
                    (processClockData clocks))
                 (weeks m)
       \<and> map rowWeek (salesAndPOByWeek m) = weeks m"
proof -
  define pm where "pm = processProductData products"
  define s where "s = salesByWeek (processSalesData salesOrders pm)"
  define p where "p = processPurchaseData purchaseOrders pm"
  define l where "l = processClockData clocks"
  from assms have w: "weeks m = allWeeksOf s p l"
    and m1: "casesPerLaborHour m = objectValues (casesPerLaborHourByWeekOf s p l (weeks m))"
    and m2: "salesAndPOByWeek m
               = formattedWeeklyDataOf s p l (casesPerLaborHourByWeekOf s p l (weeks m)) (weeks m)"
    by (auto simp: calculateMetrics_def Let_def pm_def s_def p_def l_def split: if_splits)
  have k: "set (objectKeys s) \<union> set (objectKeys p) \<union> set (objectKeys l) \<subseteq> range weekKey"
    using processSalesData_weekKeys[of salesOrders pm] processPurchaseData_weekKeys[of purchaseOrders pm]
      processClockData_weekKeys[of clocks]
    unfolding set_objectKeys s_def p_def l_def by blast
  have 1: "set (weeks m) = set (objectKeys s) \<union> set (objectKeys p) \<union> set (objectKeys l)"
    unfolding w allWeeksOf_def by (auto simp: set_arraySort set_newSet)
  have 2: "distinct (weeks m)"
    unfolding w allWeeksOf_def by (simp add: distinct_arraySort distinct_newSet)
  have 3: "sorted_wrt weekKeyLeq (weeks m)"
    unfolding w allWeeksOf_def
    by (rule sorted_allWeeks) (use k in \<open>simp add: set_newSet\<close>)
  have ni: "\<forall>wk \<in> set (weeks m). \<not> isArrayIndex wk"
    using k unfolding 1 by (auto simp: weekKey_not_index)
  have 4: "casesPerLaborHour m = map (weekMetricsOf s p l) (weeks m)"
    unfolding m1 casesPerLaborHourByWeekOf_eq[OF 2]
    by (rule objectValues_graph[OF ni])
  have 5: "map rowWeek (salesAndPOByWeek m) = weeks m"
    unfolding m2 formattedWeeklyDataOf_def by (simp add: comp_def)
  show ?thesis using 1 2 3 4 5 unfolding s_def p_def l_def pm_def by blast
qed

text \<open>A week that has labor hours only.\<close>

theorem weeks_cover_witness:
  "calculateMetrics
     [[(''Product Name'', Str ''Widget''), (''Units Per Case'', Num 10)]]
     [[(''Product'', Str ''Widget''), (''Quantity'', Num 100), (''Customer'', Str ''Acme''),
       (''Delivery Date'', Str ''2024-01-16'')]] []
     [[(''Date In'', Str ''2024-01-08''), (''Total Less Break'', Num 5)]]
   = Inr \<lparr> casesPerLaborHour =
              [\<lparr> week = ''2024-W02'', receivedCases = 0, shippedCases = 0, laborHours = 5,
                 totalCasesPerLaborHour = Finite 0 \<rparr>,
               \<lparr> week = ''2024-W03'', receivedCases = 0, shippedCases = 10, laborHours = 0,
                 totalCasesPerLaborHour = Finite 0 \<rparr>],
           salesAndPOByWeek =
              [\<lparr> rowWeek = ''2024-W02'', received = 0, shipped = 0, rowLaborHours = 5,
                 rowTotalCasesPerLaborHour = Finite 0 \<rparr>,
               \<lparr> rowWeek = ''2024-W03'', received = 0, shipped = 10, rowLaborHours = 0,
                 rowTotalCasesPerLaborHour = Finite 0 \<rparr>],
           topStoresByWeek = [\<lparr> store = ''Acme'', total = 10 \<rparr>],
           allStoreData =
              [\<lparr> entryWeek = ''2024-W02'', cases = 0, entryStore = ''Acme'' \<rparr>,
               \<lparr> entryWeek = ''2024-W03'', cases = 10, entryStore = ''Acme'' \<rparr>],
           allStores = [''Acme''], weeks = [''2024-W02'', ''2024-W03''] \<rparr>
   \<and> weekKeyLeq ''2024-W02'' ''2024-W03''"
proof -
  have h: "calculateMetrics
     [[(''Product Name'', Str ''Widget''), (''Units Per Case'', Num 10)]]
     [[(''Product'', Str ''Widget''), (''Quantity'', Num 100), (''Customer'', Str ''Acme''),
       (''Delivery Date'', Str ''2024-01-16'')]] []
     [[(''Date In'', Str ''2024-01-08''), (''Total Less Break'', Num 5)]]
   = Inr \<lparr> casesPerLaborHour =
              [\<lparr> week = ''2024-W02'', receivedCases = 0, shippedCases = 0, laborHours = 5,
                 totalCasesPerLaborHour = Finite 0 \<rparr>,
               \<lparr> week = ''2024-W03'', receivedCases = 0, shippedCases = 10, laborHours = 0,
                 totalCasesPerLaborHour = Finite 0 \<rparr>],
           salesAndPOByWeek =
              [\<lparr> rowWeek = ''2024-W02'', received = 0, shipped = 0, rowLaborHours = 5,
                 rowTotalCasesPerLaborHour = Finite 0 \<rparr>,
               \<lparr> rowWeek = ''2024-W03'', received = 0, shipped = 10, rowLaborHours = 0,
                 rowTotalCasesPerLaborHour = Finite 0 \<rparr>],
           topStoresByWeek = [\<lparr> store = ''Acme'', total = 10 \<rparr>],
           allStoreData =
              [\<lparr> entryWeek = ''2024-W02'', cases = 0, entryStore = ''Acme'' \<rparr>,
               \<lparr> entryWeek = ''2024-W03'', cases = 10, entryStore = ''Acme'' \<rparr>],
           allStores = [''Acme''], weeks = [''2024-W02'', ''2024-W03''] \<rparr>"
    by code_simp
  show ?thesis
    using weeks_cover_sales_purchases_and_labor[OF h] h by simp
qed

text \<open>
  In the first dashboard file \<open>getWeekNumber\<close> returns \<open>null\<close>, which is no string,
  when no date comes out of the value, and then each of the three loops leaves its
  totals as they are.
\<close>

theorem unparsed_date_rows_are_skipped:
  "(getWeekNumber (orderDeliveryDate order) = None \<longrightarrow> salesStep productMap acc order = acc)
   \<and> (getWeekNumber (poDate po) = None \<longrightarrow> purchaseStep productMap poByWeek po = poByWeek)
   \<and> (getWeekNumber (clockDateIn clock) = None \<longrightarrow> clockStep laborHoursByWeek clock = laborHoursByWeek)"
  by (simp add: salesStep_def purchaseStep_def clockStep_def Let_def split: option.splits)

theorem unparsed_date_witness:
  "getWeekNumber (orderDeliveryDate
      [(''Product'', Str ''Widget''), (''Quantity'', Num 100), (''Customer'', Str ''Acme''),
       (''Delivery Date'', Str ''not a date'')]) = None
   \<and> salesStep [(''Widget'', 10)] \<lparr> salesByWeek = [(''2024-W02'', 1)], salesByStoreAndWeek = [] \<rparr>
      [(''Product'', Str ''Widget''), (''Quantity'', Num 100), (''Customer'', Str ''Acme''),
       (''Delivery Date'', Str ''not a date'')]
     = \<lparr> salesByWeek = [(''2024-W02'', 1)], salesByStoreAndWeek = [] \<rparr>
   \<and> purchaseStep [(''Widget'', 10)] [(''2024-W02'', 1)]
      [(''Product Name'', Str ''Widget''), (''Purchase Quantity'', Num 100),
       (''Purchase Order Date'', Str ''next week'')] = [(''2024-W02'', 1)]
   \<and> clockStep [(''2024-W02'', 1)]
      [(''Date In'', Str ''yesterday''), (''Total Less Break'', Num 5)] = [(''2024-W02'', 1)]"
proof -
  let ?order = "[(''Product'', Str ''Widget''), (''Quantity'', Num 100), (''Customer'', Str ''Acme''),
       (''Delivery Date'', Str ''not a date'')]"
  let ?po = "[(''Product Name'', Str ''Widget''), (''Purchase Quantity'', Num 100),
       (''Purchase Order Date'', Str ''next week'')]"
  let ?clock = "[(''Date In'', Str ''yesterday''), (''Total Less Break'', Num 5)]"
  have a: "getWeekNumber (orderDeliveryDate ?order) = None" by code_simp
  have b: "getWeekNumber (poDate ?po) = None" by code_simp
  have c: "getWeekNumber (clockDateIn ?clock) = None" by code_simp
  show ?thesis
    using unparsed_date_rows_are_skipped
      [of ?order "[(''Widget'', 10)]"
          "\<lparr> salesByWeek = [(''2024-W02'', 1)], salesByStoreAndWeek = [] \<rparr>"
          ?po "[(''2024-W02'', 1)]" ?clock "[(''2024-W02'', 1)]"] a b c
    by simp
qed

section \<open>Two examples of the specification\<close>

text \<open>The end-to-end scenario: one product with 10 units per case, one order of 100
  units for Acme on Monday 8 January 2024 and 5 labor hours on the same day give one
  week, \<open>2024-W02\<close>, with 10 shipped cases, efficiency 2, and Acme ranked with 10.\<close>

theorem end_to_end_scenario:
  "calculateMetrics
     [[(''Product Name'', Str ''Widget''), (''Units Per Case'', Num 10)]]
     [[(''Product'', Str ''Widget''), (''Quantity'', Num 100), (''Customer'', Str ''Acme''),
       (''Delivery Date'', Str ''2024-01-08'')]] []
     [[(''Date In'', Str ''2024-01-08''), (''Total Less Break'', Num 5)]]
   = Inr \<lparr> casesPerLaborHour =
              [\<lparr> week = ''2024-W02'', receivedCases = 0, shippedCases = 10, laborHours = 5,
                 totalCasesPerLaborHour = Finite 2 \<rparr>],
           salesAndPOByWeek =
              [\<lparr> rowWeek = ''2024-W02'', received = 0, shipped = 10, rowLaborHours = 5,
                 rowTotalCasesPerLaborHour = Finite 2 \<rparr>],
           topStoresByWeek = [\<lparr> store = ''Acme'', total = 10 \<rparr>],
           allStoreData = [\<lparr> entryWeek = ''2024-W02'', cases = 10, entryStore = ''Acme'' \<rparr>],
           allStores = [''Acme''], weeks = [''2024-W02''] \<rparr>"
  by code_simp

text \<open>The ambiguous date \<open>03-04-2024\<close> is not ISO; its first candidate reads it as month
  3, day 4, so it falls into the week of Monday 4 March 2024. The day-first reading, 3
  April 2024, would fall into week 14.\<close>

theorem ambiguous_date_is_read_month_first:
  "parseISO ''03-04-2024'' = None
   \<and> parseDateValue (Str ''03-04-2024'') = Some (daysFromCivil 2024 3 4)
   \<and> getWeekNumber (Str ''03-04-2024'') = Some ''2024-W10''
   \<and> weekKey (daysFromCivil 2024 4 3) = ''2024-W14''"
  by code_simp

end
